theory Spec2Isabelle
  imports Complex_Main "HOL-Library.Sublist" "HOL-Library.Log_Nat"
begin

section \<open>Strings as the program sees them\<close>

text \<open>
  A JavaScript string is a sequence of code units. The embedding represents it as a
  \<^typ>\<open>string\<close>, each \<^typ>\<open>char\<close> standing for one code unit in the range
  U+0000 .. U+00FF, so that \<open>length\<close> is the \<open>.length\<close> of the source. The helpers
  below are the string methods the sources call, with the results JavaScript gives
  on that range.
\<close>

definition isWhiteSpace :: "char \<Rightarrow> bool" where
  \<comment> \<open>The characters \<open>\s\<close> matches and \<open>trim\<close> strips: TAB, LF, VT, FF, CR, space and
      the no-break space.\<close>
  "isWhiteSpace c = (c = CHR 0x09 \<or> c = CHR 0x0A \<or> c = CHR 0x0B \<or> c = CHR 0x0C \<or>
                     c = CHR 0x0D \<or> c = CHR 0x20 \<or> c = CHR 0xA0)"

definition isLineTerminator :: "char \<Rightarrow> bool" where
  "isLineTerminator c = (c = CHR 0x0A \<or> c = CHR 0x0D)"

definition toLowerChar :: "char \<Rightarrow> char" where
  \<comment> \<open>\<open>A\<close>-\<open>Z\<close> and the upper-case letters of Latin-1 move up by 32.\<close>
  "toLowerChar c =
     (let n = (of_char c :: nat)
      in if (65 \<le> n \<and> n \<le> 90) \<or> (192 \<le> n \<and> n \<le> 214) \<or> (216 \<le> n \<and> n \<le> 222)
         then char_of (n + 32) else c)"

definition toLowerCase :: "string \<Rightarrow> string" where
  "toLowerCase s = map toLowerChar s"

fun startsWith :: "string \<Rightarrow> string \<Rightarrow> bool" where
  \<comment> \<open>\<open>startsWith s p\<close> is \<open>s.startsWith(p)\<close>.\<close>
  "startsWith s [] = True"
| "startsWith [] (p # ps) = False"
| "startsWith (c # cs) (p # ps) = (c = p \<and> startsWith cs ps)"

fun strIncludes :: "string \<Rightarrow> string \<Rightarrow> bool" where
  \<comment> \<open>\<open>strIncludes s sub\<close> is \<open>s.includes(sub)\<close>: literal containment.\<close>
  "strIncludes [] sub = (sub = [])"
| "strIncludes (c # cs) sub = (startsWith (c # cs) sub \<or> strIncludes cs sub)"

definition trim :: "string \<Rightarrow> string" where
  "trim s = rev (dropWhile isWhiteSpace (rev (dropWhile isWhiteSpace s)))"

fun join :: "string \<Rightarrow> string list \<Rightarrow> string" where
  \<comment> \<open>\<open>join sep xs\<close> is \<open>xs.join(sep)\<close>.\<close>
  "join sep [] = []"
| "join sep [x] = x"
| "join sep (x # y # ys) = x @ sep @ join sep (y # ys)"

function splitFrom :: "string \<Rightarrow> string \<Rightarrow> string \<Rightarrow> string list" where
  \<comment> \<open>The scan behind \<open>s.split(sep)\<close> for a string separator: \<open>acc\<close> is the piece read
      so far. An empty separator never matches here (see \<open>split\<close>).\<close>
  "splitFrom sep acc [] = [acc]"
| "splitFrom sep acc (c # cs) =
     (if sep \<noteq> [] \<and> startsWith (c # cs) sep
      then acc # splitFrom sep [] (drop (length sep) (c # cs))
      else splitFrom sep (acc @ [c]) cs)"
  by pat_completeness auto
termination
  by (relation "measure (\<lambda>(sep, acc, s). length s)") auto

definition split :: "string \<Rightarrow> string \<Rightarrow> string list" where
  \<comment> \<open>\<open>split s sep\<close> is \<open>s.split(sep)\<close>; with the empty separator JavaScript returns
      the code units one by one.\<close>
  "split s sep = (if sep = [] then map (\<lambda>c. [c]) s else splitFrom sep [] s)"

function splitWhitespaceFrom :: "string \<Rightarrow> string \<Rightarrow> string list" where
  \<comment> \<open>The scan behind \<open>s.split(/\s+/)\<close>: a maximal run of white space separates two
      pieces, and a run at either end leaves an empty piece there.\<close>
  "splitWhitespaceFrom acc [] = [acc]"
| "splitWhitespaceFrom acc (c # cs) =
     (if isWhiteSpace c
      then acc # splitWhitespaceFrom [] (dropWhile isWhiteSpace cs)
      else splitWhitespaceFrom (acc @ [c]) cs)"
  by pat_completeness auto
termination
  by (relation "measure (\<lambda>(acc, s). length s)")
     (auto simp: less_Suc_eq_le length_dropWhile_le)

definition splitWhitespace :: "string \<Rightarrow> string list" where
  "splitWhitespace s = splitWhitespaceFrom [] s"

section \<open>Errors\<close>

text \<open>
  An exception of the source is a value: a function that may throw returns
  \<open>error + 'a\<close>, with \<open>Inl\<close> for the exception. The \<open>message\<close> of the exception is
  kept, since the error document quotes it.
\<close>

datatype error = SyntaxError string | TypeError string | SystemError string

fun message :: "error \<Rightarrow> string" where
  "message (SyntaxError m) = m"
| "message (TypeError m) = m"
| "message (SystemError m) = m"

section \<open>The data model (analyzer.ts, \<open>FileInfo\<close>)\<close>

datatype Language = typescript | javascript | python | other

record ImportRecord =
  importPath :: string
  importNames :: "string list"
  isDefault :: bool

datatype ExportKind =
  ExportFunction | ExportClass | ExportInterface | ExportType | ExportConst | ExportDefault

record ExportRecord =
  exportName :: string
  exportKind :: ExportKind
  exportLine :: nat

record FunctionRecord =
  fnName :: string
  fnStartLine :: nat
  fnEndLine :: nat
  fnParams :: "string list"
  fnIsAsync :: bool
  fnIsExported :: bool

record ClassRecord =
  clsName :: string
  clsStartLine :: nat
  clsEndLine :: nat
  clsMethods :: "string list"
  clsExtends :: "string option"
  clsImplements :: "string list option"
  clsIsExported :: bool

record InterfaceRecord =
  ifName :: string
  ifStartLine :: nat
  ifEndLine :: nat
  ifProperties :: "string list"
  ifIsExported :: bool

record TypeRecord =
  tyName :: string
  tyStartLine :: nat
  tyDefinition :: string
  tyIsExported :: bool

text \<open>
  \<open>FileInfo\<close>: the fields of the source in their order. \<open>size\<close> is \<open>fileSize\<close>,
  and the six fact lists carry the prefix \<open>file\<close> (\<open>imports\<close> is \<open>fileImports\<close>,
  \<open>functions\<close> is \<open>fileFunctions\<close>, and so on); \<open>lastModified\<close> is a time stamp.
\<close>

record FileInfo =
  path :: string
  relativePath :: string
  content :: string
  fileSize :: nat
  lastModified :: nat
  fileImports :: "ImportRecord list"
  fileExports :: "ExportRecord list"
  fileFunctions :: "FunctionRecord list"
  fileClasses :: "ClassRecord list"
  fileInterfaces :: "InterfaceRecord list"
  fileTypes :: "TypeRecord list"
  dependencies :: "string list"
  language :: Language

section \<open>Extraction (analyzer.ts)\<close>

text \<open>
  \<open>analyzeFile\<close> reads the world through \<open>fs.stat\<close>, \<open>fs.readFile\<close>, \<open>path.relative\<close>,
  \<open>path.extname\<close> and the clock; \<open>indexProject\<close> lists the files with \<open>fastGlob\<close>. They
  are the fields of an environment, each call that can throw returning a sum. The six
  \<open>extract...\<close> methods scan the content with regular expressions; they are fields of
  the environment too, so that what is proved of \<open>analyzeFile\<close> holds whatever they
  extract. \<open>indexProject\<close> starts the analysis of all files at once; \<open>settleTime\<close> is
  the moment at which the reads of a file settle, which the file system decides.
\<close>

record Stats =
  statSize :: nat
  statMtime :: nat

record Environment =
  fsStat :: "string \<Rightarrow> error + Stats"
  fsReadFile :: "string \<Rightarrow> error + string"
  pathRelative :: "string \<Rightarrow> string \<Rightarrow> string"
  pathExtname :: "string \<Rightarrow> string"
  currentTime :: nat
  fastGlob :: "string \<Rightarrow> error + string list"
  settleTime :: "string \<Rightarrow> nat"
  extractImports :: "string \<Rightarrow> Language \<Rightarrow> ImportRecord list"
  extractExports :: "string \<Rightarrow> Language \<Rightarrow> ExportRecord list"
  extractFunctions :: "string \<Rightarrow> Language \<Rightarrow> FunctionRecord list"
  extractClasses :: "string \<Rightarrow> Language \<Rightarrow> ClassRecord list"
  extractInterfaces :: "string \<Rightarrow> Language \<Rightarrow> InterfaceRecord list"
  extractTypes :: "string \<Rightarrow> Language \<Rightarrow> TypeRecord list"

text \<open>
  The analyzer object: \<open>cache\<close> is a \<open>Map\<close>, which keeps its keys in insertion order
  (\<open>getAllFiles\<close> lists the values in that order), so it is an association list;
  \<open>cacheSet\<close> is \<open>Map.prototype.set\<close>, which replaces the value of a key in place and
  appends a new key.
\<close>

record Analyzer =
  cache :: "(string \<times> FileInfo) list"
  projectRoot :: string

fun cacheSet :: "string \<Rightarrow> FileInfo \<Rightarrow> (string \<times> FileInfo) list \<Rightarrow> (string \<times> FileInfo) list" where
  "cacheSet k v [] = [(k, v)]"
| "cacheSet k v (p # ps) = (if fst p = k then (k, v) # ps else p # cacheSet k v ps)"

definition detectLanguage :: "Environment \<Rightarrow> string \<Rightarrow> Language" where
  "detectLanguage env filePath =
     (let ext = toLowerCase (pathExtname env filePath)
      in if ext = ''.ts'' \<or> ext = ''.tsx'' then typescript
         else if ext = ''.js'' \<or> ext = ''.jsx'' then javascript
         else if ext = ''.py'' then python
         else other)"

definition extractFileInfo :: "Environment \<Rightarrow> Analyzer \<Rightarrow> string \<Rightarrow> error + FileInfo" where
  \<comment> \<open>The \<open>try\<close> block of \<open>analyzeFile\<close> up to \<open>cache.set\<close>: an exception of \<open>fs.stat\<close>
      or \<open>fs.readFile\<close> leaves it.\<close>
  "extractFileInfo env analyzer filePath =
     (case fsStat env filePath of
        Inl e \<Rightarrow> Inl e
      | Inr stats \<Rightarrow>
          (case fsReadFile env filePath of
             Inl e \<Rightarrow> Inl e
           | Inr fileContent \<Rightarrow>
               let relPath = pathRelative env (projectRoot analyzer) filePath;
                   lang = detectLanguage env filePath;
                   fileInfo = \<lparr>path = filePath, relativePath = relPath, content = fileContent,
                     fileSize = statSize stats, lastModified = statMtime stats,
                     fileImports = extractImports env fileContent lang,
                     fileExports = extractExports env fileContent lang,
                     fileFunctions = extractFunctions env fileContent lang,
                     fileClasses = extractClasses env fileContent lang,
                     fileInterfaces = extractInterfaces env fileContent lang,
                     fileTypes = extractTypes env fileContent lang,
                     dependencies = [], language = lang\<rparr>
               in Inr (fileInfo\<lparr>dependencies := map importPath (fileImports fileInfo)\<rparr>)))"

definition minimalFileInfo :: "Environment \<Rightarrow> Analyzer \<Rightarrow> string \<Rightarrow> FileInfo" where
  \<comment> \<open>The record built in the \<open>catch\<close> block.\<close>
  "minimalFileInfo env analyzer filePath =
     (let relPath = pathRelative env (projectRoot analyzer) filePath
      in \<lparr>path = filePath, relativePath = relPath, content = [], fileSize = 0,
          lastModified = currentTime env, fileImports = [], fileExports = [],
          fileFunctions = [], fileClasses = [], fileInterfaces = [], fileTypes = [],
          dependencies = [], language = other\<rparr>)"

definition analyzeFile ::
  "Environment \<Rightarrow> Analyzer \<Rightarrow> string \<Rightarrow> error + (FileInfo \<times> Analyzer)" where
  \<comment> \<open>The method returns the record and leaves the analyzer with the record cached;
      \<open>Inl\<close> would be a rejected promise.\<close>
  "analyzeFile env analyzer filePath =
     (case extractFileInfo env analyzer filePath of
        Inr fileInfo \<Rightarrow>
          Inr (fileInfo, analyzer\<lparr>cache := cacheSet filePath fileInfo (cache analyzer)\<rparr>)
      | Inl error \<Rightarrow>
          let fileInfo = minimalFileInfo env analyzer filePath
          in Inr (fileInfo, analyzer\<lparr>cache := cacheSet filePath fileInfo (cache analyzer)\<rparr>))"

fun analyzeAll :: "Environment \<Rightarrow> Analyzer \<Rightarrow> string list \<Rightarrow> error + Analyzer" where
  \<comment> \<open>The promises of \<open>files.map(filePath => analyzer.analyzeFile(filePath))\<close>, each
      caching its record when its reads have settled; the list holds the files in that
      order. \<open>Promise.all\<close> is rejected as soon as one promise is.\<close>
  "analyzeAll env analyzer [] = Inr analyzer"
| "analyzeAll env analyzer (filePath # rest) =
     (case analyzeFile env analyzer filePath of
        Inl e \<Rightarrow> Inl e
      | Inr (fileInfo, analyzer') \<Rightarrow> analyzeAll env analyzer' rest)"

definition indexProject :: "Environment \<Rightarrow> Analyzer \<Rightarrow> string \<Rightarrow> error + Analyzer" where
  \<comment> \<open>The \<open>catch\<close> of \<open>indexProject\<close> logs and throws the error again. The analyses
      run concurrently: the files reach the cache in the order in which their reads
      settle, files that settle together in the order of the list.\<close>
  "indexProject env analyzer rootDir =
     (let analyzer = analyzer\<lparr>projectRoot := rootDir\<rparr>
      in case fastGlob env rootDir of
           Inl e \<Rightarrow> Inl e
         | Inr files \<Rightarrow> analyzeAll env analyzer (sort_key (settleTime env) files))"

definition getFileInfo :: "Analyzer \<Rightarrow> string \<Rightarrow> FileInfo option" where
  "getFileInfo analyzer filePath = map_of (cache analyzer) filePath"

definition getAllFiles :: "Analyzer \<Rightarrow> FileInfo list" where
  "getAllFiles analyzer = map snd (cache analyzer)"

section \<open>Regular expressions built from a keyword\<close>

text \<open>
  \<open>calculateRelevanceScore\<close> evaluates \<open>content.match(new RegExp(keyword, 'g'))\<close>: the
  keyword is the \<^emph>\<open>source text of a pattern\<close>. A keyword without syntax characters
  other than the dot is a sequence of pattern characters, each matching itself, and of
  dots, each matching any code unit but a line terminator; \<open>match\<close> with the \<open>g\<close> flag
  returns the matches found from left to right, each search starting where the last
  match ended (one further after an empty match). That fragment is defined here. Any
  other pattern is handed to a parameter, the engine of the runtime, which returns the
  number of matches or the \<open>SyntaxError\<close> that \<open>new RegExp\<close> throws.
\<close>

type_synonym RegExpEngine = "string \<Rightarrow> string \<Rightarrow> error + nat"

definition isSyntaxCharacter :: "char \<Rightarrow> bool" where
  \<comment> \<open>The syntax characters of a pattern, the dot apart:
      \<open>^ $ \ * + ? ( ) [ ] { } |\<close>.\<close>
  "isSyntaxCharacter c =
     (c \<in> set [CHR 0x5E, CHR 0x24, CHR 0x5C, CHR 0x2A, CHR 0x2B, CHR 0x3F, CHR 0x28,
                CHR 0x29, CHR 0x5B, CHR 0x5D, CHR 0x7B, CHR 0x7D, CHR 0x7C])"

fun matchesAt :: "string \<Rightarrow> string \<Rightarrow> bool" where
  \<comment> \<open>\<open>matchesAt pattern text\<close>: the pattern matches a prefix of \<open>text\<close>.\<close>
  "matchesAt [] text = True"
| "matchesAt (p # ps) [] = False"
| "matchesAt (p # ps) (c # cs) =
     ((if p = CHR ''.'' then \<not> isLineTerminator c else p = c) \<and> matchesAt ps cs)"

function countMatches :: "string \<Rightarrow> string \<Rightarrow> nat" where
  "countMatches pattern [] = (if matchesAt pattern [] then 1 else 0)"
| "countMatches pattern (c # cs) =
     (if matchesAt pattern (c # cs)
      then 1 + (if pattern = [] then countMatches pattern cs
                else countMatches pattern (drop (length pattern) (c # cs)))
      else countMatches pattern cs)"
  by pat_completeness auto
termination
  by (relation "measure (\<lambda>(pattern, text). length text)") auto

definition globalMatchCount :: "RegExpEngine \<Rightarrow> string \<Rightarrow> string \<Rightarrow> error + nat" where
  \<comment> \<open>\<open>(text.match(new RegExp(pattern, 'g')) || []).length\<close>\<close>
  "globalMatchCount engine pattern text =
     (if list_ex isSyntaxCharacter pattern then engine pattern text
      else Inr (countMatches pattern text))"

section \<open>Relevance ranking (context-builder.ts)\<close>

definition isPrimaryLanguage :: "Language \<Rightarrow> bool" where
  \<comment> \<open>\<open>['typescript', 'javascript'].includes(file.language)\<close>\<close>
  "isPrimaryLanguage l = (l = typescript \<or> l = javascript)"

definition queryKeywords :: "string \<Rightarrow> string list" where
  \<comment> \<open>\<open>query.toLowerCase().split(/\s+/).filter(word => word.length > 2)\<close>\<close>
  "queryKeywords query =
     (let queryLower = toLowerCase query
      in filter (\<lambda>word. length word > 2) (splitWhitespace queryLower))"

definition isRelevantFile :: "string list \<Rightarrow> FileInfo \<Rightarrow> bool" where
  \<comment> \<open>The callback of the first \<open>allFiles.filter\<close> in \<open>findRelevantFiles\<close>.\<close>
  "isRelevantFile keywords file =
     (if \<not> isPrimaryLanguage (language file) then False
      else
        let fileName = toLowerCase (relativePath file);
            fileContent = toLowerCase (content file);
            fileNameMatches = list_ex (\<lambda>keyword.
               strIncludes fileName keyword \<or>
               list_ex (\<lambda>fn. strIncludes (toLowerCase (fnName fn)) keyword) (fileFunctions file) \<or>
               list_ex (\<lambda>cls. strIncludes (toLowerCase (clsName cls)) keyword) (fileClasses file))
              keywords;
            contentMatches = list_ex (\<lambda>keyword.
               strIncludes fileContent keyword \<or>
               list_ex (\<lambda>imp. strIncludes (toLowerCase (importPath imp)) keyword)
                 (fileImports file))
              keywords
        in fileNameMatches \<or> contentMatches)"

definition isFallbackFile :: "FileInfo \<Rightarrow> bool" where
  \<comment> \<open>The callback of the second \<open>allFiles.filter\<close>, the "main files".\<close>
  "isFallbackFile file =
     (let fileName = toLowerCase (relativePath file)
      in isPrimaryLanguage (language file) \<and>
         (strIncludes fileName ''index'' \<or> strIncludes fileName ''main'' \<or>
          length (fileFunctions file) > 0 \<or> length (fileClasses file) > 0))"

definition applyScope :: "string option \<Rightarrow> FileInfo list \<Rightarrow> FileInfo list" where
  "applyScope scope relevantFiles =
     (if scope = Some ''function'' then filter (\<lambda>f. length (fileFunctions f) > 0) relevantFiles
      else if scope = Some ''class'' then filter (\<lambda>f. length (fileClasses f) > 0) relevantFiles
      else relevantFiles)"

fun scoreKeywords :: "RegExpEngine \<Rightarrow> FileInfo \<Rightarrow> nat \<Rightarrow> string list \<Rightarrow> error + nat" where
  \<comment> \<open>The \<open>keywords.forEach\<close> of \<open>calculateRelevanceScore\<close>, \<open>score\<close> being the running
      total.\<close>
  "scoreKeywords engine file score [] = Inr score"
| "scoreKeywords engine file score (keyword # rest) =
     (let fileName = toLowerCase (relativePath file);
          content = toLowerCase (content file);
          score = (if strIncludes fileName keyword then score + 10 else score);
          score = (if list_ex (\<lambda>fn. strIncludes (toLowerCase (fnName fn)) keyword)
                        (fileFunctions file) then score + 8 else score);
          score = (if list_ex (\<lambda>cls. strIncludes (toLowerCase (clsName cls)) keyword)
                        (fileClasses file) then score + 8 else score)
      in case globalMatchCount engine keyword content of
           Inl e \<Rightarrow> Inl e
         | Inr contentMatches \<Rightarrow>
             let score = score + min contentMatches 5;
                 score = (if list_ex (\<lambda>imp. strIncludes (toLowerCase (importPath imp)) keyword)
                               (fileImports file) then score + 5 else score)
             in scoreKeywords engine file score rest)"

definition calculateRelevanceScore :: "RegExpEngine \<Rightarrow> FileInfo \<Rightarrow> string list \<Rightarrow> error + nat" where
  "calculateRelevanceScore engine file keywords = scoreKeywords engine file 0 keywords"

fun scoreAll :: "RegExpEngine \<Rightarrow> string list \<Rightarrow> FileInfo list \<Rightarrow> error + nat list" where
  "scoreAll engine keywords [] = Inr []"
| "scoreAll engine keywords (f # fs) =
     (case calculateRelevanceScore engine f keywords of
        Inl e \<Rightarrow> Inl e
      | Inr s \<Rightarrow> (case scoreAll engine keywords fs of
                   Inl e \<Rightarrow> Inl e
                 | Inr ss \<Rightarrow> Inr (s # ss)))"

definition sortByRelevance ::
  "RegExpEngine \<Rightarrow> string list \<Rightarrow> FileInfo list \<Rightarrow> error + FileInfo list" where
  \<comment> \<open>\<open>relevantFiles.sort((a, b) => bScore - aScore)\<close>. With fewer than two elements
      the comparator is never called. Otherwise every element is compared at least once,
      so an exception of the score of any element leaves the sort; without one the
      sort is stable and orders by descending score.\<close>
  "sortByRelevance engine keywords relevantFiles =
     (if length relevantFiles < 2 then Inr relevantFiles
      else case scoreAll engine keywords relevantFiles of
             Inl e \<Rightarrow> Inl e
           | Inr scores \<Rightarrow>
               Inr (map fst (sort_key (\<lambda>(f, s). - int s) (zip relevantFiles scores))))"

definition selectCandidates :: "string list \<Rightarrow> FileInfo list \<Rightarrow> FileInfo list" where
  \<comment> \<open>The value of \<open>relevantFiles\<close> before the scope filter: the relevant files, or,
      when there is none, the first ten main files.\<close>
  "selectCandidates keywords allFiles =
     (let relevantFiles = filter (isRelevantFile keywords) allFiles
      in if length relevantFiles = 0
         then take 10 (filter isFallbackFile allFiles)
         else relevantFiles)"

definition findRelevantFiles ::
  "RegExpEngine \<Rightarrow> FileInfo list \<Rightarrow> string \<Rightarrow> string option \<Rightarrow> error + FileInfo list" where
  "findRelevantFiles engine allFiles query scope =
     (let keywords = queryKeywords query;
          relevantFiles = selectCandidates keywords allFiles;
          relevantFiles = applyScope scope relevantFiles
      in case sortByRelevance engine keywords relevantFiles of
           Inl e \<Rightarrow> Inl e
         | Inr ranked \<Rightarrow> Inr (take 20 ranked))"

section \<open>The dependency graph (context-builder.ts)\<close>

record GraphNode =
  nodeId :: string
  nodeType :: Language
  nodeSize :: nat
  nodeFunctions :: nat
  nodeClasses :: nat

record GraphEdge =
  source :: string
  target :: string
  edgeType :: string

record DependencyGraph =
  nodes :: "GraphNode list"
  edges :: "GraphEdge list"

definition findTargetFile :: "FileInfo list \<Rightarrow> ImportRecord \<Rightarrow> FileInfo option" where
  \<comment> \<open>\<open>files.find(f => ...)\<close>: the first file the import path can be matched to.\<close>
  "findTargetFile files imp =
     find (\<lambda>f. strIncludes (relativePath f) (importPath imp) \<or>
                relativePath f = importPath imp @ ''.ts'' \<or>
                relativePath f = importPath imp @ ''.js'') files"

definition importEdges :: "FileInfo list \<Rightarrow> FileInfo \<Rightarrow> GraphEdge list" where
  \<comment> \<open>The inner \<open>file.imports.forEach\<close>: the edges one file pushes.\<close>
  "importEdges files file =
     List.map_filter (\<lambda>imp.
        case findTargetFile files imp of
          None \<Rightarrow> None
        | Some targetFile \<Rightarrow>
            Some \<lparr>source = relativePath file, target = relativePath targetFile,
                  edgeType = ''import''\<rparr>)
       (fileImports file)"

definition buildDependencyGraph :: "FileInfo list \<Rightarrow> DependencyGraph" where
  "buildDependencyGraph files =
     (let nodes = map (\<lambda>f. \<lparr>nodeId = relativePath f, nodeType = language f,
                              nodeSize = fileSize f, nodeFunctions = length (fileFunctions f),
                              nodeClasses = length (fileClasses f)\<rparr>) files;
          edges = concat (map (importEdges files) files)
      in \<lparr>nodes = nodes, edges = edges\<rparr>)"

section \<open>The token estimate\<close>

text \<open>
  \<^verbatim>\<open>
  private estimateTokenCount(content: string): number {
    return Math.ceil(content.length / 4);
  }
  \<close>
\<close>

definition estimateTokenCount :: "string \<Rightarrow> nat" where
  "estimateTokenCount str = nat \<lceil>(of_nat (length str) :: rat) / 4\<rceil>"

section \<open>Budget compression (context-builder.ts)\<close>

definition isEssentialLine :: "string \<Rightarrow> bool" where
  \<comment> \<open>The callback of \<open>lines.filter\<close> in \<open>intelligentCompression\<close>.\<close>
  "isEssentialLine line =
     (let trimmed = trim line
      in startsWith trimmed ''export'' \<or>
         startsWith trimmed ''import'' \<or>
         startsWith trimmed ''function'' \<or>
         startsWith trimmed ''class'' \<or>
         startsWith trimmed ''interface'' \<or>
         startsWith trimmed ''type'' \<or>
         startsWith trimmed ''const'' \<or>
         startsWith trimmed ''//'' \<or>
         strIncludes trimmed ''TODO'' \<or>
         strIncludes trimmed ''FIXME'' \<or>
         startsWith line ''```'')"

definition firstOr :: "string list \<Rightarrow> string" where
  \<comment> \<open>\<open>xs[0]\<close> inside a string concatenation: a missing element reads \<open>undefined\<close>.\<close>
  "firstOr xs = (case xs of [] \<Rightarrow> ''undefined'' | x # _ \<Rightarrow> x)"

definition compressFile :: "string \<Rightarrow> string" where
  \<comment> \<open>The callback of \<open>files.map\<close>: the first line, then the essential lines.\<close>
  "compressFile file =
     (let lines = split file ''\<newline>'';
          filename = firstOr lines;
          essentialLines = filter isEssentialLine lines
      in filename @ ''\<newline>'' @ join ''\<newline>'' essentialLines)"

definition compressSection :: "nat \<Rightarrow> string \<Rightarrow> string" where
  \<comment> \<open>The body of the \<open>for\<close> loop: what is pushed for section \<open>i\<close>.\<close>
  "compressSection i section =
     (if strIncludes section ''Complete File Contents''
      then
        let files = drop 1 (split section ''### '');
            compressedFiles = map compressFile files
        in ''## '' @ firstOr (split section ''\<newline>'') @ ''\<newline>\<newline>'' @
           join ''\<newline>\<newline>---\<newline>\<newline>'' (map (\<lambda>f. ''### '' @ f) compressedFiles)
      else (if i = 0 then section else ''## '' @ section))"

fun compressSections :: "nat \<Rightarrow> string list \<Rightarrow> string list" where
  \<comment> \<open>The \<open>for\<close> loop over the sections, from index \<open>i\<close>.\<close>
  "compressSections i [] = []"
| "compressSections i (section # rest) =
     compressSection i section # compressSections (Suc i) rest"

definition compressedContext :: "string \<Rightarrow> string" where
  \<comment> \<open>The local \<open>compressedContext\<close> of \<open>intelligentCompression\<close>: the output of the
      first tier.\<close>
  "compressedContext context =
     (let sections = split context ''\<newline>## '';
          compressedSections = compressSections 0 sections
      in join ''\<newline>\<newline>'' compressedSections)"

fun keepImportantLines :: "bool \<Rightarrow> string \<Rightarrow> string list \<Rightarrow> string list" where
  \<comment> \<open>The \<open>for\<close> loop of \<open>aggressiveCompression\<close>: the lines pushed to
      \<open>importantLines\<close>, given the loop variables \<open>inCodeBlock\<close> and \<open>currentLanguage\<close>.\<close>
  "keepImportantLines inCodeBlock currentLanguage [] = []"
| "keepImportantLines inCodeBlock currentLanguage (line # rest) =
     (if startsWith line ''```'' then
        (if inCodeBlock
         then line # keepImportantLines False currentLanguage rest
         else line # keepImportantLines True (drop 3 line) rest)
      else if inCodeBlock then
        (let trimmed = trim line
         in if startsWith trimmed ''export'' \<or>
               startsWith trimmed ''import'' \<or>
               startsWith trimmed ''function'' \<or>
               startsWith trimmed ''class'' \<or>
               startsWith trimmed ''interface'' \<or>
               startsWith trimmed ''type'' \<or>
               startsWith trimmed ''const'' \<or>
               startsWith trimmed ''let'' \<or>
               startsWith trimmed ''var'' \<or>
               strIncludes trimmed ''//'' \<or>
               strIncludes trimmed ''/*'' \<or>
               trimmed = [] \<or>
               startsWith line ''#''
            then line # keepImportantLines inCodeBlock currentLanguage rest
            else keepImportantLines inCodeBlock currentLanguage rest)
      else
        (if startsWith line ''#'' \<or>
            startsWith line ''**'' \<or>
            startsWith line ''- '' \<or>
            startsWith line ''*'' \<or>
            trim line = [] \<or>
            strIncludes line ''Summary'' \<or>
            strIncludes line ''Insights''
         then line # keepImportantLines inCodeBlock currentLanguage rest
         else keepImportantLines inCodeBlock currentLanguage rest))"

definition aggressiveCompression :: "string \<Rightarrow> rat \<Rightarrow> string" where
  "aggressiveCompression context maxTokens =
     (let lines = split context ''\<newline>'';
          importantLines = keepImportantLines False [] lines
      in join ''\<newline>'' importantLines)"

definition intelligentCompression :: "string \<Rightarrow> rat \<Rightarrow> string" where
  \<comment> \<open>\<open>maxTokens\<close> is a JavaScript number; the finite ones are modelled.\<close>
  "intelligentCompression context maxTokens =
     (if of_nat (estimateTokenCount (compressedContext context)) > maxTokens
      then aggressiveCompression (compressedContext context) maxTokens
      else compressedContext context)"

section \<open>The context request (context-builder.ts, \<open>buildCompleteContext\<close>)\<close>

record Options =
  optQuery :: string
  optProjectRoot :: string
  optScope :: "string option"
  optCompleteness :: "string option"
  optMaxTokens :: "rat option"

record Validation =
  valid :: bool
  validationMessage :: "string option"
  normalizedPath :: string

datatype UsagePatterns =
  UsagePatterns (commonImports: "(string \<times> nat) list") (architecturalPatterns: "string list")
    (functionUsagePatterns: "(string \<times> nat) list") (classUsagePatterns: "string list")
  | NoPatterns

record Metadata =
  totalFiles :: nat
  totalLines :: nat
  totalFunctions :: nat
  totalClasses :: nat
  primaryLanguage :: string
  estimatedTokens :: nat

record Response =
  formattedContext :: string
  metadata :: Metadata
  summary :: string
  folderTree :: string
  dependencyGraph :: DependencyGraph
  usagePatterns :: UsagePatterns
  filesIncluded :: "string list"
  responseTotalLines :: nat
  compressionLevel :: string
  tokenCount :: nat

text \<open>
  What \<open>buildCompleteContext\<close> calls besides the functions above: \<open>validateProjectRoot\<close>
  and \<open>generateFolderTree\<close> read the file system (the second catches every exception of
  its own and always returns a string); \<open>analyzeUsagePatterns\<close>, \<open>formatContextForFiles\<close>
  and \<open>generateContextSummary\<close> render text and counts. They are parameters, those that
  can throw returning a sum, so the theorems hold for whatever they return.
  \<open>regExpEngine\<close> is the engine of the runtime, \<open>world\<close> the environment of the analyzer.
\<close>

record Collaborators =
  world :: Environment
  regExpEngine :: RegExpEngine
  validateProjectRoot :: "string \<Rightarrow> error + Validation"
  generateFolderTree :: "string \<Rightarrow> string"
  analyzeUsagePatterns :: "FileInfo list \<Rightarrow> FileInfo list \<Rightarrow> error + UsagePatterns"
  formatContextForFiles ::
    "FileInfo list \<Rightarrow> DependencyGraph \<Rightarrow> UsagePatterns \<Rightarrow> string \<Rightarrow> string \<Rightarrow> error + string"
  generateContextSummary ::
    "FileInfo list \<Rightarrow> DependencyGraph \<Rightarrow> UsagePatterns \<Rightarrow> error + string"

fun languageName :: "Language \<Rightarrow> string" where
  "languageName typescript = ''typescript''"
| "languageName javascript = ''javascript''"
| "languageName python = ''python''"
| "languageName other = ''other''"

fun countLanguage :: "Language \<Rightarrow> (Language \<times> nat) list \<Rightarrow> (Language \<times> nat) list" where
  \<comment> \<open>\<open>languageCount[l] = (languageCount[l] || 0) + 1\<close>, the keys in insertion order.\<close>
  "countLanguage l [] = [(l, 1)]"
| "countLanguage l (p # ps) =
     (if fst p = l then (l, snd p + 1) # ps else p # countLanguage l ps)"

definition detectPrimaryLanguage :: "FileInfo list \<Rightarrow> error + string" where
  \<comment> \<open>\<open>Object.entries(languageCount).reduce((a, b) => count a > count b ? a : b)[0]\<close>;
      \<open>reduce\<close> without an initial value throws on an empty array.\<close>
  "detectPrimaryLanguage relevantFiles =
     (let languageCount = foldl (\<lambda>counts f. countLanguage (language f) counts) [] relevantFiles
      in case languageCount of
           [] \<Rightarrow> Inl (TypeError ''Reduce of empty array with no initial value'')
         | e # es \<Rightarrow>
             let winner = foldl (\<lambda>a b. if snd a > snd b then a else b) e es;
                 name = languageName (fst winner)
             in Inr (if name = [] then ''typescript'' else name))"

definition countLines :: "FileInfo list \<Rightarrow> nat" where
  \<comment> \<open>\<open>relevantFiles.reduce((sum, f) => sum + f.content.split('\n').length, 0)\<close>\<close>
  "countLines relevantFiles =
     foldl (\<lambda>sum f. sum + length (split (content f) ''\<newline>'')) 0 relevantFiles"

definition errorResponse :: "string \<Rightarrow> string \<Rightarrow> string \<Rightarrow> string \<Rightarrow> Response" where
  \<comment> \<open>The object literal both error returns share; they differ in the error text, in
      the last sentence of the document and in the folder tree.\<close>
  "errorResponse query errorText lastSentence tree =
     \<lparr>formattedContext =
        ''# Error Building Context\<newline>\<newline>An error occurred while building context for query: '' @
        [CHR 0x22] @ query @ [CHR 0x22] @ ''\<newline>\<newline>Error: '' @ errorText @ ''\<newline>\<newline>'' @ lastSentence,
      metadata = \<lparr>totalFiles = 0, totalLines = 0, totalFunctions = 0, totalClasses = 0,
                   primaryLanguage = ''unknown'', estimatedTokens = 100\<rparr>,
      summary = ''Error occurred during context building - check folder structure'',
      folderTree = tree,
      dependencyGraph = \<lparr>nodes = [], edges = []\<rparr>,
      usagePatterns = NoPatterns,
      filesIncluded = [],
      responseTotalLines = 0,
      compressionLevel = ''error'',
      tokenCount = 100\<rparr>"

definition contextFor ::
  "Collaborators \<Rightarrow> Options \<Rightarrow> Validation \<Rightarrow> FileInfo list \<Rightarrow> error + Response" where
  \<comment> \<open>Steps 3 to 10 of the \<open>try\<close> block, from the files the analyzer holds.\<close>
  "contextFor env options validation allFiles =
     (case findRelevantFiles (regExpEngine env) allFiles (optQuery options) (optScope options) of
        Inl e \<Rightarrow> Inl e
      | Inr relevantFiles \<Rightarrow>
     let tree = generateFolderTree env (normalizedPath validation);
         graph = buildDependencyGraph relevantFiles
     in case analyzeUsagePatterns env allFiles relevantFiles of
        Inl e \<Rightarrow> Inl e
      | Inr patterns \<Rightarrow>
     (case formatContextForFiles env relevantFiles graph patterns (optQuery options) tree of
        Inl e \<Rightarrow> Inl e
      | Inr formatted \<Rightarrow>
     let lineCount = countLines relevantFiles;
         functionCount = foldl (\<lambda>sum f. sum + length (fileFunctions f)) 0 relevantFiles;
         classCount = foldl (\<lambda>sum f. sum + length (fileClasses f)) 0 relevantFiles
     in case detectPrimaryLanguage relevantFiles of
        Inl e \<Rightarrow> Inl e
      | Inr mainLanguage \<Rightarrow>
     let estimated = estimateTokenCount formatted;
         budget = (case optMaxTokens options of
                     None \<Rightarrow> None
                   | Some maxTokens \<Rightarrow>
                       if maxTokens \<noteq> 0 \<and> of_nat estimated > maxTokens
                       then Some maxTokens else None);
         finalContext = (case budget of
                           Some maxTokens \<Rightarrow> intelligentCompression formatted maxTokens
                         | None \<Rightarrow> formatted);
         level = (case budget of
                    Some maxTokens \<Rightarrow> ''compressed''
                  | None \<Rightarrow> (case optCompleteness options of
                               None \<Rightarrow> ''full''
                             | Some c \<Rightarrow> if c = [] then ''full'' else c));
         finalTokenCount = estimateTokenCount finalContext
     in case generateContextSummary env relevantFiles graph patterns of
        Inl e \<Rightarrow> Inl e
      | Inr text \<Rightarrow>
          Inr \<lparr>formattedContext = finalContext,
               metadata = \<lparr>totalFiles = length relevantFiles, totalLines = lineCount,
                            totalFunctions = functionCount, totalClasses = classCount,
                            primaryLanguage = mainLanguage,
                            estimatedTokens = finalTokenCount\<rparr>,
               summary = text,
               folderTree = tree,
               dependencyGraph = graph,
               usagePatterns = patterns,
               filesIncluded = map relativePath relevantFiles,
               responseTotalLines = lineCount,
               compressionLevel = level,
               tokenCount = finalTokenCount\<rparr>))"

definition tryBuildContext :: "Collaborators \<Rightarrow> Analyzer \<Rightarrow> Options \<Rightarrow> error + Response" where
  \<comment> \<open>The \<open>try\<close> block: \<open>Inl\<close> is an exception that reaches the \<open>catch\<close>.\<close>
  "tryBuildContext env analyzer options =
     (case validateProjectRoot env (optProjectRoot options) of
        Inl e \<Rightarrow> Inl e
      | Inr validation \<Rightarrow>
          let folderTreeForError =
                generateFolderTree env
                  (if normalizedPath validation = [] then optProjectRoot options
                   else normalizedPath validation)
          in if \<not> valid validation
             then Inr (errorResponse (optQuery options)
                    (case validationMessage validation of None \<Rightarrow> ''undefined'' | Some m \<Rightarrow> m)
                    ''Please check the project structure below and adjust accordingly.''
                    folderTreeForError)
             else case indexProject (world env) analyzer (normalizedPath validation) of
                    Inl e \<Rightarrow> Inl e
                  | Inr analyzer' \<Rightarrow> contextFor env options validation (getAllFiles analyzer'))"

definition buildCompleteContext :: "Collaborators \<Rightarrow> Analyzer \<Rightarrow> Options \<Rightarrow> error + Response" where
  \<comment> \<open>The method with its \<open>catch\<close>; \<open>Inl\<close> would be an exception raised to the caller.
      The analyzer is the builder's own; its state after the call is not returned.\<close>
  "buildCompleteContext env analyzer options =
     (case tryBuildContext env analyzer options of
        Inr response \<Rightarrow> Inr response
      | Inl error \<Rightarrow>
          let folderTreeForError = generateFolderTree env (optProjectRoot options)
          in Inr (errorResponse (optQuery options) (message error)
                   ''Please check the project structure below to understand the issue.''
                   folderTreeForError))"

section \<open>JavaScript numbers\<close>

text \<open>
  The scores of the completeness scorer are JavaScript numbers: IEEE 754 binary64
  values, every arithmetic operation giving the double nearest to the exact result,
  ties going to the even significand. A double is represented by the rational it
  denotes. \<open>toDouble x\<close> is the double nearest to \<open>x\<close>: with \<open>2 ^ e \<le> |x| < 2 ^ (e + 1)\<close>
  the doubles around \<open>x\<close> are the multiples of \<open>2 ^ (e - 52)\<close>. The numbers of the scorer
  are 0 or lie between \<open>2 ^ -1022\<close> and \<open>2 ^ 1024\<close> (they are counts below \<open>2 ^ 53\<close>,
  quotients of two such counts, and sums and products of a few numbers in \<open>[0, 100]\<close>),
  so subnormal numbers, infinities and NaN do not occur and are not represented.
\<close>

definition floorLog2 :: "rat \<Rightarrow> int" where
  \<comment> \<open>For \<open>x > 0\<close> the exponent \<open>e\<close> with \<open>2 ^ e \<le> x < 2 ^ (e + 1)\<close>, found from the bit
      lengths of numerator and denominator.\<close>
  "floorLog2 x =
     (let (a, b) = quotient_of x; d = bitlen a - bitlen b
      in if 2 powi d \<le> x then d else d - 1)"

definition roundHalfEven :: "rat \<Rightarrow> int" where
  "roundHalfEven q =
     (let f = \<lfloor>q\<rfloor>; r = q - of_int f
      in if r < 1 / 2 then f else if r > 1 / 2 then f + 1 else if even f then f else f + 1)"

definition toDouble :: "rat \<Rightarrow> rat" where
  "toDouble x =
     (if x = 0 then 0
      else let e = floorLog2 \<bar>x\<bar>;
               m = roundHalfEven (\<bar>x\<bar> * 2 powi (52 - e))
           in sgn x * of_int m * 2 powi (e - 52))"

definition numAdd :: "rat \<Rightarrow> rat \<Rightarrow> rat" where
  \<comment> \<open>\<open>a + b\<close> on numbers\<close>
  "numAdd a b = toDouble (a + b)"

definition numMul :: "rat \<Rightarrow> rat \<Rightarrow> rat" where
  \<comment> \<open>\<open>a * b\<close> on numbers\<close>
  "numMul a b = toDouble (a * b)"

definition numDiv :: "rat \<Rightarrow> rat \<Rightarrow> rat" where
  \<comment> \<open>\<open>a / b\<close> on numbers, for a divisor other than 0 (no division of the scorer has
      divisor 0)\<close>
  "numDiv a b = toDouble (a / b)"

definition mathRound :: "rat \<Rightarrow> int" where
  \<comment> \<open>\<open>Math.round\<close>: the nearest integer, a tie going up; exact on a double.\<close>
  "mathRound x = \<lfloor>x + 1 / 2\<rfloor>"

section \<open>The completeness scorer (context-validator.ts)\<close>

text \<open>
  A decimal literal of the source is the double nearest to it: \<open>0.3\<close> is
  \<open>toDouble (3 / 10)\<close>.
\<close>

function showNat :: "nat \<Rightarrow> string" where
  \<comment> \<open>A count inside a template literal: its decimal digits.\<close>
  "showNat n = (if n < 10 then [char_of (48 + n)]
                else showNat (n div 10) @ [char_of (48 + n mod 10)])"
  by pat_completeness auto
termination
  by (relation "measure id") auto

fun countCodeBlocksFrom :: "bool \<Rightarrow> string \<Rightarrow> nat" where
  \<comment> \<open>The matches of \<open>/```[\s\S]*?```/g\<close>: a fence opens a block, the next fence after it
      closes the block, and the search goes on behind the closing fence. \<open>opened\<close> says
      that an opening fence has been read.\<close>
  "countCodeBlocksFrom opened [] = 0"
| "countCodeBlocksFrom opened (c # cs) =
     (if startsWith (c # cs) ''```''
      then (if opened then 1 + countCodeBlocksFrom False (drop 2 cs)
            else countCodeBlocksFrom True (drop 2 cs))
      else countCodeBlocksFrom opened cs)"

definition countCodeBlocks :: "string \<Rightarrow> nat" where
  \<comment> \<open>\<open>(context.match(/```[\s\S]*?```/g) || []).length\<close>\<close>
  "countCodeBlocks context = countCodeBlocksFrom False context"

fun countHeadersFrom :: "bool \<Rightarrow> string \<Rightarrow> nat" where
  \<comment> \<open>The matches of \<open>/^##? /gm\<close>: with the \<open>m\<close> flag \<open>^\<close> matches at the start of the
      text and behind every line terminator. \<open>lineStart\<close> says that the position is
      one of those.\<close>
  "countHeadersFrom lineStart [] = 0"
| "countHeadersFrom lineStart (c # cs) =
     (if lineStart \<and> (startsWith (c # cs) ''# '' \<or> startsWith (c # cs) ''## '') then 1 else 0)
     + countHeadersFrom (isLineTerminator c) cs"

definition countHeaders :: "string \<Rightarrow> nat" where
  \<comment> \<open>\<open>(context.match(/^##? /gm) || []).length\<close>\<close>
  "countHeaders context = countHeadersFrom True context"

datatype QueryType = FunctionQuery | ClassQuery | ModuleQuery | FeatureQuery | GeneralQuery

record QueryAnalysis =
  qaType :: QueryType
  qaEntities :: "string list"
  qaScope :: string
  qaRequiresImplementation :: bool
  qaRequiresTests :: bool
  qaRequiresDocumentation :: bool
  qaRequiresDependencies :: bool
  qaKeywords :: "string list"

record Findings =
  missingElements :: "string list"
  suggestions :: "string list"
  warnings :: "string list"
  strengths :: "string list"

record ValidationDetail = Findings +
  score :: rat
  weight :: rat

record ValidationResult = Findings +
  isComplete :: bool
  completenessScore :: rat
  confidenceScore :: rat

definition startsWithCapital :: "string \<Rightarrow> bool" where
  \<comment> \<open>\<open>/^[A-Z]/.test(word)\<close>\<close>
  "startsWithCapital word =
     (case word of [] \<Rightarrow> False
      | c # cs \<Rightarrow> (65::nat) \<le> of_char c \<and> (of_char c :: nat) \<le> 90)"

definition analyzeQuery :: "string \<Rightarrow> QueryAnalysis" where
  "analyzeQuery query =
     (let queryLower = toLowerCase query;
          words = splitWhitespace query
      in \<lparr>qaType =
            (if strIncludes queryLower ''function'' \<or> strIncludes queryLower ''method''
             then FunctionQuery
             else if strIncludes queryLower ''class'' \<or> strIncludes queryLower ''object''
             then ClassQuery
             else if strIncludes queryLower ''module'' \<or> strIncludes queryLower ''file''
             then ModuleQuery
             else if strIncludes queryLower ''feature'' \<or> strIncludes queryLower ''component''
             then FeatureQuery
             else GeneralQuery),
          qaEntities = filter (\<lambda>word.
             (length word > 2 \<and> startsWithCapital word) \<or> strIncludes word ''.'') words,
          qaScope = ''feature'',
          qaRequiresImplementation =
            (strIncludes queryLower ''implement'' \<or> strIncludes queryLower ''code'' \<or>
             strIncludes queryLower ''how''),
          qaRequiresTests =
            (strIncludes queryLower ''test'' \<or> strIncludes queryLower ''spec''),
          qaRequiresDocumentation =
            (strIncludes queryLower ''document'' \<or> strIncludes queryLower ''readme''),
          qaRequiresDependencies = True,
          qaKeywords = filter (\<lambda>word. length word > 2) (splitWhitespace query)\<rparr>)"

definition emptyDetail :: "rat \<Rightarrow> ValidationDetail" where
  \<comment> \<open>The initial \<open>result\<close> of every validator, with its weight.\<close>
  "emptyDetail w = \<lparr>missingElements = [], suggestions = [], warnings = [], strengths = [],
                     score = 0, weight = w\<rparr>"

text \<open>
  The statements by which the validators change \<open>result\<close>:
  \<open>result.missingElements.push(s)\<close>, \<open>result.suggestions.push(s)\<close>,
  \<open>result.warnings.push(s)\<close>, \<open>result.strengths.push(s)\<close>, \<open>result.score = k\<close> and
  \<open>result.score += k\<close>.
\<close>

definition pushMissing :: "string \<Rightarrow> ValidationDetail \<Rightarrow> ValidationDetail" where
  "pushMissing s result = result\<lparr>missingElements := missingElements result @ [s]\<rparr>"

definition pushSuggestion :: "string \<Rightarrow> ValidationDetail \<Rightarrow> ValidationDetail" where
  "pushSuggestion s result = result\<lparr>suggestions := suggestions result @ [s]\<rparr>"

definition pushWarning :: "string \<Rightarrow> ValidationDetail \<Rightarrow> ValidationDetail" where
  "pushWarning s result = result\<lparr>warnings := warnings result @ [s]\<rparr>"

definition pushStrength :: "string \<Rightarrow> ValidationDetail \<Rightarrow> ValidationDetail" where
  "pushStrength s result = result\<lparr>strengths := strengths result @ [s]\<rparr>"

definition setScore :: "rat \<Rightarrow> ValidationDetail \<Rightarrow> ValidationDetail" where
  "setScore k result = result\<lparr>score := k\<rparr>"

definition addScore :: "rat \<Rightarrow> ValidationDetail \<Rightarrow> ValidationDetail" where
  "addScore k result = result\<lparr>score := numAdd (score result) k\<rparr>"

definition capScore :: "ValidationDetail \<Rightarrow> ValidationDetail" where
  \<comment> \<open>\<open>result.score = Math.min(1, result.score)\<close>\<close>
  "capScore result = result\<lparr>score := min 1 (score result)\<rparr>"

definition validateCodeCompleteness :: "string \<Rightarrow> QueryAnalysis \<Rightarrow> ValidationDetail" where
  "validateCodeCompleteness context query =
     (let result = emptyDetail (toDouble (3 / 10));
          codeBlocks = countCodeBlocks context;
          result = (if codeBlocks = 0
                    then setScore (toDouble (1 / 10))
                           (pushSuggestion ''Include actual code implementations''
                             (pushMissing ''No code implementations found'' result))
                    else setScore (min 1 (numDiv (of_nat codeBlocks) 5))
                           (pushStrength (''Contains '' @ showNat codeBlocks @ '' code blocks'')
                             result));
          result = (if strIncludes context ''import'' \<or> strIncludes context ''from''
                    then addScore (toDouble (2 / 10))
                           (pushStrength ''Dependencies and imports are included'' result)
                    else pushMissing ''Missing import statements'' result);
          result = (if strIncludes context ''export''
                    then addScore (toDouble (1 / 10)) (pushStrength ''Export statements included'' result)
                    else result);
          result = (if strIncludes context ''interface'' \<or> strIncludes context ''type''
                    then addScore (toDouble (1 / 10)) (pushStrength ''Type definitions included'' result)
                    else result);
          result = (if qaType query = FunctionQuery \<and> \<not> strIncludes context ''function''
                    then pushWarning
                           ''Query asks about functions but few function definitions found''
                           result
                    else result);
          result = (if qaType query = ClassQuery \<and> \<not> strIncludes context ''class''
                    then pushWarning
                           ''Query asks about classes but few class definitions found''
                           result
                    else result)
      in capScore result)"

definition validateDependencyCompleteness :: "string \<Rightarrow> QueryAnalysis \<Rightarrow> ValidationDetail" where
  "validateDependencyCompleteness contextContent query =
     (let result = emptyDetail (toDouble (25 / 100));
          result = (if strIncludes contextContent ''Dependencies'' \<or>
                       strIncludes contextContent ''imports''
                    then addScore (toDouble (4 / 10))
                           (pushStrength ''Dependency information included'' result)
                    else pushSuggestion
                           ''Include dependency relationships and import statements''
                           (pushMissing ''Missing dependency information'' result));
          result = (if strIncludes contextContent ''Dependency'' \<and>
                       strIncludes contextContent ''Graph''
                    then addScore (toDouble (3 / 10))
                           (pushStrength ''Dependency graph visualization included'' result)
                    else result);
          result = (if strIncludes contextContent ''Usage'' \<or>
                       strIncludes contextContent ''Pattern''
                    then addScore (toDouble (3 / 10)) (pushStrength ''Usage patterns documented'' result)
                    else result)
      in capScore result)"

definition validateStructuralCompleteness :: "string \<Rightarrow> QueryAnalysis \<Rightarrow> ValidationDetail" where
  "validateStructuralCompleteness context query =
     (let result = emptyDetail (toDouble (2 / 10));
          hasHeaders = countHeaders context;
          result = (if hasHeaders \<ge> 3
                    then addScore (toDouble (3 / 10))
                           (pushStrength ''Well-structured with multiple sections'' result)
                    else pushSuggestion ''Add more structural sections for clarity'' result);
          result = (if strIncludes context ''File Contents'' \<or> strIncludes context ''Components''
                    then addScore (toDouble (3 / 10)) (pushStrength ''File organization included'' result)
                    else result);
          result = (if strIncludes context ''Summary'' \<or> strIncludes context ''Overview''
                    then addScore (toDouble (2 / 10))
                           (pushStrength ''Contains summary/overview section'' result)
                    else pushMissing ''Missing project summary'' result);
          result = (if strIncludes context ''Insights'' \<or> strIncludes context ''Analysis''
                    then addScore (toDouble (2 / 10))
                           (pushStrength ''Includes analysis and insights'' result)
                    else result)
      in capScore result)"

definition coherenceRatio :: "string \<Rightarrow> QueryAnalysis \<Rightarrow> rat" where
  \<comment> \<open>\<open>keywordMatches.length / Math.max(query.keywords.length, 1)\<close>\<close>
  "coherenceRatio context query =
     (let contextLower = toLowerCase context;
          keywordMatches = filter (\<lambda>keyword. strIncludes contextLower (toLowerCase keyword))
                             (qaKeywords query)
      in numDiv (of_nat (length keywordMatches)) (of_nat (max (length (qaKeywords query)) 1)))"

definition validateContextCoherence :: "string \<Rightarrow> QueryAnalysis \<Rightarrow> ValidationDetail" where
  "validateContextCoherence context query =
     (let result = emptyDetail (toDouble (15 / 100));
          contextLower = toLowerCase context;
          ratio = coherenceRatio context query;
          result = setScore ratio result;
          result = (if ratio \<ge> toDouble (7 / 10)
                    then pushStrength ''High coherence between query and context'' result
                    else if ratio \<ge> toDouble (4 / 10)
                    then pushStrength ''Good coherence between query and context'' result
                    else pushSuggestion ''Ensure context directly addresses the query''
                           (pushWarning ''Low coherence between query and provided context''
                             result));
          entityMatches = filter (\<lambda>entity. strIncludes contextLower (toLowerCase entity))
                            (qaEntities query);
          result = (if length entityMatches > 0
                    then addScore (toDouble (2 / 10))
                           (pushStrength (''Found '' @ showNat (length entityMatches) @
                                          '' requested entities'') result)
                    else result)
      in capScore result)"

definition validateUsageExamples :: "string \<Rightarrow> QueryAnalysis \<Rightarrow> ValidationDetail" where
  "validateUsageExamples context query =
     (let result = emptyDetail (toDouble (1 / 10));
          result = (if strIncludes context ''example'' \<or> strIncludes context ''Example''
                    then addScore (toDouble (5 / 10)) (pushStrength ''Contains usage examples'' result)
                    else result);
          result = (if qaRequiresTests query
                    then (if strIncludes context ''test'' \<or> strIncludes context ''spec''
                          then addScore (toDouble (3 / 10)) (pushStrength ''Test cases included'' result)
                          else pushSuggestion ''Include relevant test files''
                                 (pushMissing ''Missing test cases'' result))
                    else result);
          result = (if qaRequiresDocumentation query
                    then (if strIncludes context ''README'' \<or> strIncludes context ''doc''
                          then addScore (toDouble (2 / 10)) (pushStrength ''Documentation included'' result)
                          else pushMissing ''Missing documentation'' result)
                    else result)
      in capScore result)"

definition calculateConfidenceScore :: "rat \<Rightarrow> string \<Rightarrow> rat" where
  "calculateConfidenceScore completeness context =
     (let confidence = completeness;
          contextLength = length context;
          confidence = (if contextLength < 1000 then numMul confidence (toDouble (7 / 10))
                        else if contextLength > 10000
                        then min 1 (numMul confidence (toDouble (11 / 10)))
                        else confidence);
          codeBlockCount = countCodeBlocks context;
          confidence = (if codeBlockCount \<ge> 3
                        then min 1 (numMul confidence (toDouble (105 / 100)))
                        else confidence)
      in numDiv (of_int (mathRound (numMul confidence 100))) 100)"

fun uniqueFrom :: "string list \<Rightarrow> string list \<Rightarrow> string list" where
  \<comment> \<open>\<open>[...new Set(xs)]\<close>: the elements in the order of their first occurrence;
      \<open>seen\<close> holds the elements already in the set.\<close>
  "uniqueFrom seen [] = []"
| "uniqueFrom seen (x # xs) =
     (if x \<in> set seen then uniqueFrom seen xs else x # uniqueFrom (x # seen) xs)"

definition unique :: "string list \<Rightarrow> string list" where
  "unique xs = uniqueFrom [] xs"

definition validateCompleteness :: "string \<Rightarrow> string \<Rightarrow> ValidationResult" where
  \<comment> \<open>\<open>contextContent\<close> is the \<open>formattedContext\<close> of the context passed in.\<close>
  "validateCompleteness contextContent query =
     (let queryAnalysis = analyzeQuery query;
          validations =
            [validateCodeCompleteness contextContent queryAnalysis,
             validateDependencyCompleteness contextContent queryAnalysis,
             validateStructuralCompleteness contextContent queryAnalysis,
             validateContextCoherence contextContent queryAnalysis,
             validateUsageExamples contextContent queryAnalysis];
          totalScore = foldl (\<lambda>total v. numAdd total (numMul (score v) (weight v))) 0
                         validations;
          totalWeight = foldl (\<lambda>total v. numAdd total (weight v)) 0 validations;
          missing = concat (map missingElements validations);
          suggested = concat (map suggestions validations);
          warned = concat (map warnings validations);
          strong = concat (map strengths validations);
          completeness = (if totalWeight > 0
                          then numDiv (of_int (mathRound
                                 (numMul (numDiv totalScore totalWeight) 100))) 100
                          else 0);
          confidence = calculateConfidenceScore completeness contextContent;
          complete = (completeness \<ge> toDouble (8 / 10) \<and> length missing < 3)
      in \<lparr>missingElements = unique missing,
          suggestions = unique suggested,
          warnings = unique warned,
          strengths = unique strong,
          isComplete = complete,
          completenessScore = completeness,
          confidenceScore = confidence\<rparr>)"

section \<open>The relevance score as the specification words it\<close>

text \<open>
  The specification describes the content term of the score as the number of literal
  occurrences of the keyword in the lowercased content, capped at 5. This second
  definition follows those words, for comparison with \<open>calculateRelevanceScore\<close>.
\<close>

fun literalOccurrences :: "string \<Rightarrow> string \<Rightarrow> nat" where
  \<comment> \<open>The number of positions of \<open>str\<close> at which \<open>keyword\<close> occurs.\<close>
  "literalOccurrences keyword [] = (if keyword = [] then 1 else 0)"
| "literalOccurrences keyword (c # cs) =
     (if startsWith (c # cs) keyword then 1 else 0) + literalOccurrences keyword cs"

definition specKeywordScore :: "FileInfo \<Rightarrow> string \<Rightarrow> nat" where
  "specKeywordScore file keyword =
     (if strIncludes (toLowerCase (relativePath file)) keyword then 10 else 0)
     + (if list_ex (\<lambda>fn. strIncludes (toLowerCase (fnName fn)) keyword) (fileFunctions file)
        then 8 else 0)
     + (if list_ex (\<lambda>cls. strIncludes (toLowerCase (clsName cls)) keyword) (fileClasses file)
        then 8 else 0)
     + min (literalOccurrences keyword (toLowerCase (content file))) 5
     + (if list_ex (\<lambda>imp. strIncludes (toLowerCase (importPath imp)) keyword)
          (fileImports file) then 5 else 0)"

definition specRelevanceScore :: "FileInfo \<Rightarrow> string list \<Rightarrow> nat" where
  "specRelevanceScore file keywords = sum_list (map (specKeywordScore file) keywords)"

section \<open>Example inputs\<close>

text \<open>Concrete inputs at which the theorems below are instantiated.\<close>

definition exampleFile :: "string \<Rightarrow> string \<Rightarrow> Language \<Rightarrow> string list \<Rightarrow> FileInfo" where
  \<comment> \<open>A file without functions or classes, importing the given paths.\<close>
  "exampleFile p c l deps =
     \<lparr>path = ''/repo/'' @ p, relativePath = p, content = c, fileSize = length c,
      lastModified = 0,
      fileImports = map (\<lambda>d. \<lparr>importPath = d, importNames = [], isDefault = True\<rparr>) deps,
      fileExports = [], fileFunctions = [], fileClasses = [], fileInterfaces = [],
      fileTypes = [], dependencies = deps, language = l\<rparr>"

definition rejectingEngine :: RegExpEngine where
  \<comment> \<open>An engine that refuses every pattern handed to it.\<close>
  "rejectingEngine p t = Inl (SyntaxError ''Invalid regular expression'')"

definition exampleDocument :: string where
  \<comment> \<open>A rendered context with one file; the first tier leaves 126 characters of it.\<close>
  "exampleDocument =
     ''# Title\<newline>intro\<newline>## Complete File Contents\<newline>### a.ts\<newline>\<newline>```typescript\<newline>'' @
     ''import x from y;\<newline>let z = 1;\<newline>  return 5;\<newline>```\<newline>\<newline>'' @
     ''## Usage Patterns & Insights\<newline>text here\<newline>''"

definition exampleEnvironment :: Environment where
  \<comment> \<open>A project of two files, one of which cannot be read; its \<open>stat\<close> fails before the
      other file has been read.\<close>
  "exampleEnvironment =
     \<lparr>fsStat = (\<lambda>p. if p = ''/repo/gone.ts'' then Inl (SystemError ''ENOENT'')
                     else Inr \<lparr>statSize = 17, statMtime = 1\<rparr>),
      fsReadFile = (\<lambda>p. if p = ''/repo/gone.ts'' then Inl (SystemError ''ENOENT'')
                     else Inr ''import a from ./b''),
      pathRelative = (\<lambda>from to. drop (Suc (length from)) to),
      pathExtname = (\<lambda>p. drop (length p - 3) p),
      currentTime = 7,
      fastGlob = (\<lambda>dir. Inr [''/repo/a.ts'', ''/repo/gone.ts'']),
      settleTime = (\<lambda>p. if p = ''/repo/gone.ts'' then 1 else 2),
      extractImports = (\<lambda>c l. if l = typescript
                          then [\<lparr>importPath = ''./b'', importNames = [''a''], isDefault = True\<rparr>]
                          else []),
      extractExports = (\<lambda>c l. []),
      extractFunctions = (\<lambda>c l. []),
      extractClasses = (\<lambda>c l. []),
      extractInterfaces = (\<lambda>c l. []),
      extractTypes = (\<lambda>c l. [])\<rparr>"

definition emptyAnalyzer :: Analyzer where
  "emptyAnalyzer = \<lparr>cache = [], projectRoot = []\<rparr>"

definition exampleCollaborators :: Collaborators where
  \<comment> \<open>Only \<open>/repo\<close> is a valid project root.\<close>
  "exampleCollaborators =
     \<lparr>world = exampleEnvironment,
      regExpEngine = rejectingEngine,
      validateProjectRoot = (\<lambda>p.
         if p = ''/repo''
         then Inr \<lparr>valid = True, validationMessage = None, normalizedPath = ''/repo''\<rparr>
         else Inr \<lparr>valid = False, validationMessage = Some ''no such directory'',
                   normalizedPath = p\<rparr>),
      generateFolderTree = (\<lambda>p. ''tree of '' @ p),
      analyzeUsagePatterns = (\<lambda>allFiles relevantFiles. Inr (UsagePatterns [] [] [] [])),
      formatContextForFiles = (\<lambda>files graph patterns query tree.
         Inr (''# Context for '' @ query @ ''\<newline>'' @ tree)),
      generateContextSummary = (\<lambda>files graph patterns. Inr ''summary'')\<rparr>"

definition exampleOptions :: "string \<Rightarrow> string \<Rightarrow> Options" where
  "exampleOptions q dir =
     \<lparr>optQuery = q, optProjectRoot = dir, optScope = None, optCompleteness = None,
      optMaxTokens = None\<rparr>"

definition exampleReport :: string where
  \<comment> \<open>A rendered context with four headers and five fenced blocks.\<close>
  "exampleReport =
     ''# Project\<newline>## Summary\<newline>Overview text\<newline>## Dependencies\<newline>'' @
     ''Dependency Graph and Usage Pattern, imports\<newline>## File Contents\<newline>'' @
     ''```\<newline>import a from b\<newline>export type T\<newline>```\<newline>'' @
     ''```x``` ```y``` ```z``` ```w```\<newline>## Insights\<newline>example of parser\<newline>''"

section \<open>Properties\<close>

subsection \<open>Token estimate\<close>

lemma estimateTokenCount_div: "estimateTokenCount s = (length s + 3) div 4"
proof -
  have "\<lceil>(of_nat (length s) :: rat) / 4\<rceil> = \<lceil>(of_int (int (length s)) :: rat) / of_int 4\<rceil>"
    by simp
  also have "\<dots> = - ((- int (length s)) div 4)"
    by (simp only: ceiling_divide_eq_div)
  finally show ?thesis
    unfolding estimateTokenCount_def by (simp add: nat_eq_iff) linarith
qed

text \<open>
  C8. For every string \<open>s\<close> the token estimate is the ceiling of \<open>length s / 4\<close>:
  the least natural number \<open>n\<close> with \<open>length s \<le> 4 * n\<close>. The empty string is
  estimated at 0.
\<close>

theorem estimateTokenCount_ceiling:
  "real (estimateTokenCount s) = of_int \<lceil>real (length s) / 4\<rceil>
   \<and> length s \<le> 4 * estimateTokenCount s
   \<and> 4 * estimateTokenCount s < length s + 4
   \<and> estimateTokenCount [] = 0"
proof -
  have d: "estimateTokenCount s = (length s + 3) div 4"
    by (rule estimateTokenCount_div)
  have e: "estimateTokenCount [] = 0"
    by (simp add: estimateTokenCount_div)
  have c: "\<lceil>real (length s) / 4\<rceil> = int ((length s + 3) div 4)"
  proof -
    have "\<lceil>real (length s) / 4\<rceil> = \<lceil>(of_int (int (length s)) :: real) / of_int 4\<rceil>"
      by simp
    also have "\<dots> = - ((- int (length s)) div 4)"
      by (simp only: ceiling_divide_eq_div)
    also have "\<dots> = int ((length s + 3) div 4)"
      by linarith
    finally show ?thesis .
  qed
  show ?thesis
    using e by (simp add: d c) linarith
qed

theorem estimateTokenCount_ceiling_witness:
  "estimateTokenCount ''abcde'' = 2
   \<and> real (estimateTokenCount ''abcde'') = of_int \<lceil>real (length ''abcde'') / 4\<rceil>"
  using estimateTokenCount_ceiling [of "''abcde''"]
  by (simp add: estimateTokenCount_div)

subsection \<open>Dependency graph\<close>

lemma importEdges_sound:
  assumes "e \<in> set (importEdges files file)"
  shows "source e = relativePath file \<and> (\<exists>t \<in> set files. target e = relativePath t)"
proof -
  from assms obtain imp t where "findTargetFile files imp = Some t"
    and e: "e = \<lparr>source = relativePath file, target = relativePath t, edgeType = ''import''\<rparr>"
    by (auto simp: importEdges_def List.map_filter_def split: option.splits)
  then have "t \<in> set files"
    by (auto simp: findTargetFile_def find_Some_iff)
  with e show ?thesis by auto
qed

text \<open>
  C10. The graph of \<open>buildDependencyGraph\<close> has one node per input file, in the order
  of the files and with the relative path as its id, and it is closed: the source and the
  target of every edge are ids of nodes.
\<close>

theorem buildDependencyGraph_closed:
  "length (nodes (buildDependencyGraph files)) = length files
   \<and> map nodeId (nodes (buildDependencyGraph files)) = map relativePath files
   \<and> (\<forall>e \<in> set (edges (buildDependencyGraph files)).
         source e \<in> set (map nodeId (nodes (buildDependencyGraph files)))
         \<and> target e \<in> set (map nodeId (nodes (buildDependencyGraph files))))"
proof -
  have n: "map nodeId (nodes (buildDependencyGraph files)) = map relativePath files"
    by (simp add: buildDependencyGraph_def o_def)
  have l: "length (nodes (buildDependencyGraph files)) = length files"
    by (simp add: buildDependencyGraph_def)
  have "source e \<in> set (map relativePath files) \<and> target e \<in> set (map relativePath files)"
    if "e \<in> set (edges (buildDependencyGraph files))" for e
  proof -
    from that obtain fl where f: "fl \<in> set files" and "e \<in> set (importEdges files fl)"
      by (auto simp: buildDependencyGraph_def)
    from importEdges_sound [OF this(2)] f show ?thesis by auto
  qed
  with n l show ?thesis by simp
qed

theorem buildDependencyGraph_closed_witness:
  "edges (buildDependencyGraph
      [exampleFile ''main.ts'' ''x'' typescript [''utils'', ''fs''],
       exampleFile ''utils.ts'' ''y'' typescript []])
    = [\<lparr>source = ''main.ts'', target = ''utils.ts'', edgeType = ''import''\<rparr>]
   \<and> map nodeId (nodes (buildDependencyGraph
      [exampleFile ''main.ts'' ''x'' typescript [''utils'', ''fs''],
       exampleFile ''utils.ts'' ''y'' typescript []]))
    = map relativePath [exampleFile ''main.ts'' ''x'' typescript [''utils'', ''fs''],
       exampleFile ''utils.ts'' ''y'' typescript []]"
proof (rule conjI)
  show "edges (buildDependencyGraph
      [exampleFile ''main.ts'' ''x'' typescript [''utils'', ''fs''],
       exampleFile ''utils.ts'' ''y'' typescript []])
    = [\<lparr>source = ''main.ts'', target = ''utils.ts'', edgeType = ''import''\<rparr>]"
    by code_simp
next
  show "map nodeId (nodes (buildDependencyGraph
      [exampleFile ''main.ts'' ''x'' typescript [''utils'', ''fs''],
       exampleFile ''utils.ts'' ''y'' typescript []]))
    = map relativePath [exampleFile ''main.ts'' ''x'' typescript [''utils'', ''fs''],
       exampleFile ''utils.ts'' ''y'' typescript []]"
    using buildDependencyGraph_closed
      [of "[exampleFile ''main.ts'' ''x'' typescript [''utils'', ''fs''],
            exampleFile ''utils.ts'' ''y'' typescript []]"]
    by (rule conjunct1 [OF conjunct2])
qed

subsection \<open>Ranking\<close>

lemma sort_key_constant:
  "(\<And>x. x \<in> set xs \<Longrightarrow> f x = k) \<Longrightarrow> sort_key f xs = xs"
proof (induction xs)
  case Nil
  then show ?case by simp
next
  case (Cons x xs)
  then have "sort_key f xs = xs" by simp
  moreover have "insort_key f x xs = x # xs"
    using Cons.prems by (cases xs) auto
  ultimately show ?case by simp
qed

lemma scoreAll_no_keywords: "scoreAll engine [] fs = Inr (replicate (length fs) 0)"
  by (induction fs) (simp_all add: calculateRelevanceScore_def)

lemma scoreAll_length: "scoreAll engine ks fs = Inr ss \<Longrightarrow> length ss = length fs"
  by (induction fs arbitrary: ss) (auto split: sum.splits)

lemma sortByRelevance_no_keywords: "sortByRelevance engine [] fs = Inr fs"
proof -
  have "sort_key (\<lambda>(f, s). - int s) (zip fs (replicate (length fs) 0))
        = zip fs (replicate (length fs) 0)"
    by (rule sort_key_constant) (auto simp: set_zip)
  then show ?thesis
    by (simp add: sortByRelevance_def scoreAll_no_keywords)
qed

lemma sortByRelevance_result:
  assumes "sortByRelevance engine ks fs = Inr r"
  shows "length r = length fs \<and> set r \<subseteq> set fs"
proof (cases "length fs < 2")
  case True
  with assms show ?thesis by (simp add: sortByRelevance_def)
next
  case False
  with assms obtain ss where ss: "scoreAll engine ks fs = Inr ss"
    and r: "r = map fst (sort_key (\<lambda>(f, s). - int s) (zip fs ss))"
    by (auto simp: sortByRelevance_def split: sum.splits)
  have "length ss = length fs" using ss by (rule scoreAll_length)
  then show ?thesis
    unfolding r by (auto dest: set_zip_leftD)
qed

lemma scoreKeywords_returns:
  "\<forall>k \<in> set ks. \<not> list_ex isSyntaxCharacter k \<Longrightarrow>
   \<exists>n. scoreKeywords engine file acc ks = Inr n"
  by (induction ks arbitrary: acc) (simp_all add: globalMatchCount_def Let_def)

lemma scoreAll_returns:
  "\<forall>k \<in> set ks. \<not> list_ex isSyntaxCharacter k \<Longrightarrow>
   \<exists>ss. scoreAll engine ks fs = Inr ss"
proof (induction fs)
  case Nil
  then show ?case by simp
next
  case (Cons f fs)
  from scoreKeywords_returns [OF Cons.prems, of engine f 0]
  obtain n where "calculateRelevanceScore engine f ks = Inr n"
    by (auto simp: calculateRelevanceScore_def)
  moreover from Cons obtain ss where "scoreAll engine ks fs = Inr ss" by blast
  ultimately show ?case by simp
qed

lemma sortByRelevance_returns:
  "\<forall>k \<in> set ks. \<not> list_ex isSyntaxCharacter k \<Longrightarrow>
   \<exists>r. sortByRelevance engine ks fs = Inr r"
  using scoreAll_returns [of ks engine fs]
  by (auto simp: sortByRelevance_def)

lemma applyScope_subset: "set (applyScope scope fs) \<subseteq> set fs"
  by (auto simp: applyScope_def)

lemma applyScope_length: "length (applyScope scope fs) \<le> length fs"
  by (simp add: applyScope_def)

lemma zero_keywords_irrelevant: "\<not> isRelevantFile [] file"
  by (simp add: isRelevantFile_def Let_def)

text \<open>
  C1, as the code has it. \<open>keywords.some(...)\<close> over an empty keyword list is
  false, so a query with zero keywords makes no file relevant: the candidates are the
  fallback set (the first ten main files), every relevance score is 0, and the ranking
  returns the scope-filtered fallback set in its original order.
\<close>

theorem zero_keywords_fallback:
  assumes "queryKeywords query = []"
  shows "\<not> isRelevantFile (queryKeywords query) file
    \<and> selectCandidates (queryKeywords query) allFiles = take 10 (filter isFallbackFile allFiles)
    \<and> calculateRelevanceScore engine file (queryKeywords query) = Inr 0
    \<and> findRelevantFiles engine allFiles query scope
        = Inr (applyScope scope (take 10 (filter isFallbackFile allFiles)))"
proof -
  have c: "selectCandidates [] allFiles = take 10 (filter isFallbackFile allFiles)"
    by (simp add: selectCandidates_def zero_keywords_irrelevant)
  have "length (applyScope scope (take 10 (filter isFallbackFile allFiles))) \<le> 10"
    using applyScope_length [of scope "take 10 (filter isFallbackFile allFiles)"] by simp
  then have "findRelevantFiles engine allFiles query scope
        = Inr (applyScope scope (take 10 (filter isFallbackFile allFiles)))"
    by (simp add: findRelevantFiles_def assms c sortByRelevance_no_keywords)
  then show ?thesis
    by (simp add: assms c zero_keywords_irrelevant calculateRelevanceScore_def)
qed


theorem zero_keywords_fallback_witness:
  "queryKeywords ''a is on'' = []
   \<and> findRelevantFiles rejectingEngine
        [exampleFile ''src/index.ts'' ''let x = 1'' typescript [],
         exampleFile ''src/app.ts'' ''let y = 2'' typescript []] ''a is on'' None
       = Inr [exampleFile ''src/index.ts'' ''let x = 1'' typescript []]"
proof -
  have h: "queryKeywords ''a is on'' = []"
    by code_simp
  have e: "applyScope None (take 10 (filter isFallbackFile
        [exampleFile ''src/index.ts'' ''let x = 1'' typescript [],
         exampleFile ''src/app.ts'' ''let y = 2'' typescript []]))
      = [exampleFile ''src/index.ts'' ''let x = 1'' typescript []]"
    by code_simp
  from zero_keywords_fallback [OF h]
  have "findRelevantFiles rejectingEngine
        [exampleFile ''src/index.ts'' ''let x = 1'' typescript [],
         exampleFile ''src/app.ts'' ''let y = 2'' typescript []] ''a is on'' None
       = Inr (applyScope None (take 10 (filter isFallbackFile
        [exampleFile ''src/index.ts'' ''let x = 1'' typescript [],
         exampleFile ''src/app.ts'' ''let y = 2'' typescript []])))"
    by blast
  with h e show ?thesis by simp
qed

text \<open>
  C1 as stated fails: for the query \<open>a is on\<close> (zero keywords) a TypeScript file that is
  no main file is not relevant, and the ranking of the file set holding just that file is
  empty, whereas the claim makes the file a candidate.
\<close>

theorem zero_keywords_counterexample:
  "queryKeywords ''a is on'' = []
   \<and> isPrimaryLanguage (language (exampleFile ''src/app.ts'' ''let y = 2'' typescript []))
   \<and> \<not> isRelevantFile (queryKeywords ''a is on'')
         (exampleFile ''src/app.ts'' ''let y = 2'' typescript [])
   \<and> findRelevantFiles rejectingEngine
        [exampleFile ''src/app.ts'' ''let y = 2'' typescript []] ''a is on'' None = Inr []"
  by code_simp

text \<open>
  The shape of the score. For keywords without syntax characters the loop adds, per
  keyword, 10, 8, 8 and 5 for the four containment tests and the capped number of
  \<^emph>\<open>pattern matches\<close> of the keyword in the lowercased content.
\<close>

lemma scoreKeywords_sum:
  "\<forall>k \<in> set ks. \<not> list_ex isSyntaxCharacter k \<Longrightarrow>
   scoreKeywords engine file acc ks =
     Inr (acc + sum_list (map (\<lambda>keyword.
        (if strIncludes (toLowerCase (relativePath file)) keyword then 10 else 0)
        + (if list_ex (\<lambda>fn. strIncludes (toLowerCase (fnName fn)) keyword) (fileFunctions file)
           then 8 else 0)
        + (if list_ex (\<lambda>cls. strIncludes (toLowerCase (clsName cls)) keyword) (fileClasses file)
           then 8 else 0)
        + min (countMatches keyword (toLowerCase (content file))) 5
        + (if list_ex (\<lambda>imp. strIncludes (toLowerCase (importPath imp)) keyword)
             (fileImports file) then 5 else 0)) ks))"
  by (induction ks arbitrary: acc) (simp_all add: globalMatchCount_def Let_def)

text \<open>
  C3 at a failing input. The keyword \<open>utils.ts\<close> is compiled as a pattern, its dot
  matches the underscore of the content \<open>utils_ts\<close>, and the score is 1. The keyword
  does not occur literally in the content (nor in the path), so the score the
  specification describes is 0.
\<close>

theorem regex_keyword_score:
  "calculateRelevanceScore engine (exampleFile ''notes.ts'' ''utils_ts'' typescript [])
      [''utils.ts''] = Inr 1
   \<and> specRelevanceScore (exampleFile ''notes.ts'' ''utils_ts'' typescript []) [''utils.ts'']
       = 0"
  by code_simp

text \<open>
  C9, as the code has it. When no file satisfies the relevance predicate, the candidates
  are the first ten, in original order, of the files that are in a primary language and
  whose \<^emph>\<open>lowercased\<close> relative path contains \<open>index\<close> or \<open>main\<close> or that have a
  function or a class. Whenever the ranking returns a list, the list has at most 20
  entries, all of them candidates; and it does return one when no keyword holds a syntax
  character of regular expressions.
\<close>

theorem fallback_selection:
  "(filter (isRelevantFile (queryKeywords query)) allFiles = [] \<longrightarrow>
      selectCandidates (queryKeywords query) allFiles = take 10 (filter isFallbackFile allFiles)
      \<and> length (selectCandidates (queryKeywords query) allFiles) \<le> 10
      \<and> (\<forall>f \<in> set (selectCandidates (queryKeywords query) allFiles).
            f \<in> set allFiles \<and> isPrimaryLanguage (language f) \<and>
            (strIncludes (toLowerCase (relativePath f)) ''index'' \<or>
             strIncludes (toLowerCase (relativePath f)) ''main'' \<or>
             length (fileFunctions f) \<ge> 1 \<or> length (fileClasses f) \<ge> 1)))
   \<and> (\<forall>r. findRelevantFiles engine allFiles query scope = Inr r \<longrightarrow>
          length r \<le> 20 \<and> set r \<subseteq> set (selectCandidates (queryKeywords query) allFiles))
   \<and> ((\<forall>k \<in> set (queryKeywords query). \<not> list_ex isSyntaxCharacter k) \<longrightarrow>
        (\<exists>r. findRelevantFiles engine allFiles query scope = Inr r))"
proof (intro conjI impI allI)
  assume "filter (isRelevantFile (queryKeywords query)) allFiles = []"
  then show c: "selectCandidates (queryKeywords query) allFiles
      = take 10 (filter isFallbackFile allFiles)"
    by (simp add: selectCandidates_def)
  show "length (selectCandidates (queryKeywords query) allFiles) \<le> 10"
    by (simp add: c)
  show "\<forall>f \<in> set (selectCandidates (queryKeywords query) allFiles).
            f \<in> set allFiles \<and> isPrimaryLanguage (language f) \<and>
            (strIncludes (toLowerCase (relativePath f)) ''index'' \<or>
             strIncludes (toLowerCase (relativePath f)) ''main'' \<or>
             length (fileFunctions f) \<ge> 1 \<or> length (fileClasses f) \<ge> 1)"
  proof
    fix f assume "f \<in> set (selectCandidates (queryKeywords query) allFiles)"
    then have "f \<in> set (filter isFallbackFile allFiles)"
      unfolding c by (rule in_set_takeD)
    then show "f \<in> set allFiles \<and> isPrimaryLanguage (language f) \<and>
            (strIncludes (toLowerCase (relativePath f)) ''index'' \<or>
             strIncludes (toLowerCase (relativePath f)) ''main'' \<or>
             length (fileFunctions f) \<ge> 1 \<or> length (fileClasses f) \<ge> 1)"
      by (auto simp: isFallbackFile_def Let_def Suc_le_eq)
  qed
next
  fix r assume "findRelevantFiles engine allFiles query scope = Inr r"
  then obtain ranked where s: "sortByRelevance engine (queryKeywords query)
        (applyScope scope (selectCandidates (queryKeywords query) allFiles)) = Inr ranked"
    and r: "r = take 20 ranked"
    by (auto simp: findRelevantFiles_def Let_def split: sum.splits)
  from sortByRelevance_result [OF s] applyScope_subset
  have "set ranked \<subseteq> set (selectCandidates (queryKeywords query) allFiles)"
    by blast
  then show "set r \<subseteq> set (selectCandidates (queryKeywords query) allFiles)"
    unfolding r using set_take_subset by fastforce
  show "length r \<le> 20"
    by (simp add: r)
next
  assume "\<forall>k \<in> set (queryKeywords query). \<not> list_ex isSyntaxCharacter k"
  from sortByRelevance_returns [OF this]
  obtain ranked where "sortByRelevance engine (queryKeywords query)
        (applyScope scope (selectCandidates (queryKeywords query) allFiles)) = Inr ranked"
    by blast
  then show "\<exists>r. findRelevantFiles engine allFiles query scope = Inr r"
    by (simp add: findRelevantFiles_def Let_def)
qed

theorem fallback_selection_witness:
  "filter (isRelevantFile (queryKeywords ''zzz''))
      [exampleFile ''README.md'' ''main notes'' other [],
       exampleFile ''src/index.ts'' ''let x = 1'' typescript [],
       exampleFile ''src/app.ts'' ''let y = 2'' typescript []] = []
   \<and> selectCandidates (queryKeywords ''zzz'')
      [exampleFile ''README.md'' ''main notes'' other [],
       exampleFile ''src/index.ts'' ''let x = 1'' typescript [],
       exampleFile ''src/app.ts'' ''let y = 2'' typescript []]
     = take 10 (filter isFallbackFile
      [exampleFile ''README.md'' ''main notes'' other [],
       exampleFile ''src/index.ts'' ''let x = 1'' typescript [],
       exampleFile ''src/app.ts'' ''let y = 2'' typescript []])
   \<and> findRelevantFiles rejectingEngine
      [exampleFile ''README.md'' ''main notes'' other [],
       exampleFile ''src/index.ts'' ''let x = 1'' typescript [],
       exampleFile ''src/app.ts'' ''let y = 2'' typescript []] ''zzz'' None
     = Inr [exampleFile ''src/index.ts'' ''let x = 1'' typescript []]"
proof -
  have h: "filter (isRelevantFile (queryKeywords ''zzz''))
      [exampleFile ''README.md'' ''main notes'' other [],
       exampleFile ''src/index.ts'' ''let x = 1'' typescript [],
       exampleFile ''src/app.ts'' ''let y = 2'' typescript []] = []"
    by code_simp
  have r: "findRelevantFiles rejectingEngine
      [exampleFile ''README.md'' ''main notes'' other [],
       exampleFile ''src/index.ts'' ''let x = 1'' typescript [],
       exampleFile ''src/app.ts'' ''let y = 2'' typescript []] ''zzz'' None
     = Inr [exampleFile ''src/index.ts'' ''let x = 1'' typescript []]"
    by code_simp
  from fallback_selection [of "''zzz''" _ rejectingEngine None] h
  have "selectCandidates (queryKeywords ''zzz'')
      [exampleFile ''README.md'' ''main notes'' other [],
       exampleFile ''src/index.ts'' ''let x = 1'' typescript [],
       exampleFile ''src/app.ts'' ''let y = 2'' typescript []]
     = take 10 (filter isFallbackFile
      [exampleFile ''README.md'' ''main notes'' other [],
       exampleFile ''src/index.ts'' ''let x = 1'' typescript [],
       exampleFile ''src/app.ts'' ''let y = 2'' typescript []])"
    by blast
  with h r show ?thesis by simp
qed

text \<open>
  C9 as stated fails: with the query \<open>zzz\<close> the file \<open>Main.ts\<close>, which has no function
  and no class, is in the fallback set, and its path contains neither \<open>index\<close> nor
  \<open>main\<close>; only its lowercased path does.
\<close>

theorem fallback_path_case_counterexample:
  "filter (isRelevantFile (queryKeywords ''zzz''))
      [exampleFile ''Main.ts'' ''let x = 1'' typescript []] = []
   \<and> selectCandidates (queryKeywords ''zzz'')
      [exampleFile ''Main.ts'' ''let x = 1'' typescript []]
     = [exampleFile ''Main.ts'' ''let x = 1'' typescript []]
   \<and> \<not> strIncludes (relativePath (exampleFile ''Main.ts'' ''let x = 1'' typescript [])) ''index''
   \<and> \<not> strIncludes (relativePath (exampleFile ''Main.ts'' ''let x = 1'' typescript [])) ''main''
   \<and> length (fileFunctions (exampleFile ''Main.ts'' ''let x = 1'' typescript [])) = 0
   \<and> length (fileClasses (exampleFile ''Main.ts'' ''let x = 1'' typescript [])) = 0"
  by code_simp

subsection \<open>Compression\<close>

lemma startsWith_length: "startsWith s p \<Longrightarrow> length p \<le> length s"
  by (induction s p rule: startsWith.induct) auto

lemma splitFrom_nonempty: "splitFrom sep acc s \<noteq> []"
  by (induction sep acc s rule: splitFrom.induct) auto

lemma splitFrom_weight:
  "sep \<noteq> [] \<Longrightarrow>
   sum_list (map length (splitFrom sep acc s)) + length sep * (length (splitFrom sep acc s) - 1)
     = length acc + length s"
proof (induction sep acc s rule: splitFrom.induct)
  case (1 sep acc)
  then show ?case by simp
next
  case (2 sep acc c cs)
  show ?case
  proof (cases "startsWith (c # cs) sep")
    case True
    then have "length sep \<le> length (c # cs)" by (rule startsWith_length)
    moreover obtain n where n: "length (splitFrom sep [] (drop (length sep) (c # cs))) = Suc n"
      using splitFrom_nonempty [of sep "[]" "drop (length sep) (c # cs)"]
      by (cases "splitFrom sep [] (drop (length sep) (c # cs))") auto
    ultimately show ?thesis
      using True 2 by (simp add: algebra_simps)
  next
    case False
    with 2 show ?thesis by simp
  qed
qed


lemma join_length:
  "length (join sep xs) = sum_list (map length xs) + length sep * (length xs - 1)"
  by (induction sep xs rule: join.induct) simp_all

lemma keepImportantLines_weight:
  "sum_list (map length (keepImportantLines b l ls)) \<le> sum_list (map length ls)
   \<and> length (keepImportantLines b l ls) \<le> length ls"
  by (induction b l ls rule: keepImportantLines.induct) (auto simp: Let_def)

lemma aggressiveCompression_length:
  "length (aggressiveCompression c m) \<le> length c"
proof -
  let ?ls = "split c ''\<newline>''"
  let ?ks = "keepImportantLines False [] ?ls"
  have "sum_list (map length ?ls) + (length ?ls - 1) = length c"
    using splitFrom_weight [of "''\<newline>''" "[]" c] by (simp add: split_def)
  moreover have "sum_list (map length ?ks) \<le> sum_list (map length ?ls)"
    and "length ?ks \<le> length ?ls"
    using keepImportantLines_weight [of False "[]" ?ls] by simp_all
  moreover have "length (aggressiveCompression c m)
      = sum_list (map length ?ks) + (length ?ks - 1)"
    by (simp add: aggressiveCompression_def Let_def join_length)
  ultimately show ?thesis by linarith
qed

lemma estimateTokenCount_mono:
  "length a \<le> length b \<Longrightarrow> estimateTokenCount a \<le> estimateTokenCount b"
  by (simp add: estimateTokenCount_div div_le_mono)

text \<open>
  C5. The second tier never increases the token estimate of the text it is given, so
  its output is estimated at no more than the output of the first tier. The second tier
  runs exactly when the estimate of the first tier's output exceeds \<open>maxTokens\<close>, and
  its output is returned as it is: no further test against the budget, no error (the
  functions are total, and the example below returns 28 tokens for a budget of 3).
\<close>

theorem tier2_never_larger:
  "estimateTokenCount (aggressiveCompression c m) \<le> estimateTokenCount c
   \<and> (of_nat (estimateTokenCount (compressedContext context)) \<le> maxTokens \<longrightarrow>
        intelligentCompression context maxTokens = compressedContext context)
   \<and> (of_nat (estimateTokenCount (compressedContext context)) > maxTokens \<longrightarrow>
        intelligentCompression context maxTokens
          = aggressiveCompression (compressedContext context) maxTokens
        \<and> estimateTokenCount (intelligentCompression context maxTokens)
          \<le> estimateTokenCount (compressedContext context))"
proof -
  have a: "estimateTokenCount (aggressiveCompression c' m') \<le> estimateTokenCount c'" for c' m'
    by (rule estimateTokenCount_mono) (rule aggressiveCompression_length)
  show ?thesis
    using a [of c m] a [of "compressedContext context" maxTokens]
    by (simp add: intelligentCompression_def)
qed

theorem tier2_never_larger_witness:
  "(of_nat (estimateTokenCount (compressedContext exampleDocument)) :: rat) > 3
   \<and> estimateTokenCount (compressedContext exampleDocument) = 32
   \<and> estimateTokenCount (intelligentCompression exampleDocument 3) = 28
   \<and> intelligentCompression exampleDocument 3
       = aggressiveCompression (compressedContext exampleDocument) 3"
proof -
  have t1: "estimateTokenCount (compressedContext exampleDocument) = 32"
    by code_simp
  then have h: "(of_nat (estimateTokenCount (compressedContext exampleDocument)) :: rat) > 3"
    by simp
  have t2: "estimateTokenCount (aggressiveCompression (compressedContext exampleDocument) 3) = 28"
    by code_simp
  from tier2_never_larger [of _ _ exampleDocument 3] h
  have i: "intelligentCompression exampleDocument 3
       = aggressiveCompression (compressedContext exampleDocument) 3"
    by blast
  with h t1 t2 show ?thesis by simp
qed

subsection \<open>Extraction\<close>

lemma map_of_cacheSet:
  "map_of (cacheSet k v al) k' = (if k' = k then Some v else map_of al k')"
  by (induction al) auto

lemma analyzeFile_eq:
  "analyzeFile env analyzer p =
     Inr (case extractFileInfo env analyzer p of
            Inr fi \<Rightarrow> fi | Inl e \<Rightarrow> minimalFileInfo env analyzer p,
          analyzer\<lparr>cache := cacheSet p
            (case extractFileInfo env analyzer p of
               Inr fi \<Rightarrow> fi | Inl e \<Rightarrow> minimalFileInfo env analyzer p) (cache analyzer)\<rparr>)"
  by (simp add: analyzeFile_def Let_def split: sum.splits)

lemma extractFileInfo_root:
  "projectRoot a = projectRoot b \<Longrightarrow> extractFileInfo env a p = extractFileInfo env b p"
  by (simp add: extractFileInfo_def split: sum.splits)

lemma minimalFileInfo_root:
  "projectRoot a = projectRoot b \<Longrightarrow> minimalFileInfo env a p = minimalFileInfo env b p"
  by (simp add: minimalFileInfo_def)

lemma extractFileInfo_fails:
  "isl (fsStat env p) \<or> isl (fsReadFile env p) \<Longrightarrow> isl (extractFileInfo env analyzer p)"
  by (auto simp: extractFileInfo_def isl_def split: sum.splits)

lemma analyzeAll_cache:
  "\<exists>analyzer'. analyzeAll env analyzer files = Inr analyzer'
     \<and> projectRoot analyzer' = projectRoot analyzer
     \<and> (\<forall>p. map_of (cache analyzer') p =
           (if p \<in> set files
            then Some (case extractFileInfo env analyzer p of
                         Inr fi \<Rightarrow> fi | Inl e \<Rightarrow> minimalFileInfo env analyzer p)
            else map_of (cache analyzer) p))"
proof -
  define r where "r = (\<lambda>a p. case extractFileInfo env a p of
                     Inr fi \<Rightarrow> fi | Inl e \<Rightarrow> minimalFileInfo env a p)"
  have same: "r a p = r b p" if "projectRoot a = projectRoot b" for a b p
    using extractFileInfo_root [OF that, of env p] minimalFileInfo_root [OF that, of env p]
    by (simp add: r_def split: sum.splits)
  have step: "analyzeFile env a x = Inr (r a x, a\<lparr>cache := cacheSet x (r a x) (cache a)\<rparr>)"
    for a x
    unfolding r_def by (rule analyzeFile_eq)
  have "\<exists>analyzer'. analyzeAll env analyzer files = Inr analyzer'
     \<and> projectRoot analyzer' = projectRoot analyzer
     \<and> (\<forall>p. map_of (cache analyzer') p =
           (if p \<in> set files then Some (r analyzer p) else map_of (cache analyzer) p))"
  proof (induction files arbitrary: analyzer)
    case Nil
    then show ?case by simp
  next
    case (Cons x files)
    define analyzer1 where "analyzer1 = analyzer\<lparr>cache := cacheSet x (r analyzer x) (cache analyzer)\<rparr>"
    have root: "projectRoot analyzer1 = projectRoot analyzer"
      by (simp add: analyzer1_def)
    from Cons.IH [of analyzer1] obtain analyzer' where
      a: "analyzeAll env analyzer1 files = Inr analyzer'"
      and b: "projectRoot analyzer' = projectRoot analyzer1"
      and c: "\<And>p. map_of (cache analyzer') p =
             (if p \<in> set files then Some (r analyzer1 p) else map_of (cache analyzer1) p)"
      by blast
    have "analyzeAll env analyzer (x # files) = Inr analyzer'"
      using a by (simp add: step analyzer1_def)
    moreover have "projectRoot analyzer' = projectRoot analyzer"
      using b root by simp
    moreover have "map_of (cache analyzer') p =
             (if p \<in> set (x # files) then Some (r analyzer p) else map_of (cache analyzer) p)" for p
    proof -
      have "map_of (cache analyzer1) p
          = (if p = x then Some (r analyzer x) else map_of (cache analyzer) p)"
        by (simp add: analyzer1_def map_of_cacheSet)
      moreover have "r analyzer1 p = r analyzer p"
        by (rule same [OF root])
      ultimately show ?thesis
        using c [of p] by (cases "p = x") auto
    qed
    ultimately show ?case by blast
  qed
  then show ?thesis unfolding r_def .
qed

text \<open>
  C6. When \<open>fs.stat\<close> or \<open>fs.readFile\<close> throws for a path, \<open>analyzeFile\<close> still returns
  a record for that path and caches it: every fact list is empty, the size is 0 and the
  language is \<open>other\<close>. A batch is not aborted by failing files: whenever the file lister
  returns, \<open>indexProject\<close> returns, with a record cached for every listed path, the
  failure record for each path that could not be read.
\<close>

theorem analyzeFile_failure_record:
  "(isl (fsStat env filePath) \<or> isl (fsReadFile env filePath) \<longrightarrow>
      (\<exists>fileInfo analyzer'. analyzeFile env analyzer filePath = Inr (fileInfo, analyzer')
         \<and> getFileInfo analyzer' filePath = Some fileInfo
         \<and> path fileInfo = filePath
         \<and> fileImports fileInfo = [] \<and> fileExports fileInfo = []
         \<and> fileFunctions fileInfo = [] \<and> fileClasses fileInfo = []
         \<and> fileInterfaces fileInfo = [] \<and> fileTypes fileInfo = []
         \<and> dependencies fileInfo = []
         \<and> fileSize fileInfo = 0 \<and> language fileInfo = other))
   \<and> (fastGlob env rootDir = Inr files \<longrightarrow>
        (\<exists>analyzer'. indexProject env analyzer rootDir = Inr analyzer'
           \<and> (\<forall>p \<in> set files. \<exists>fileInfo. getFileInfo analyzer' p = Some fileInfo
                 \<and> path fileInfo = p
                 \<and> (isl (fsStat env p) \<or> isl (fsReadFile env p) \<longrightarrow>
                      fileImports fileInfo = [] \<and> fileExports fileInfo = []
                      \<and> fileFunctions fileInfo = [] \<and> fileClasses fileInfo = []
                      \<and> fileInterfaces fileInfo = [] \<and> fileTypes fileInfo = []
                      \<and> dependencies fileInfo = []
                      \<and> fileSize fileInfo = 0 \<and> language fileInfo = other))))"
proof (intro conjI impI)
  assume "isl (fsStat env filePath) \<or> isl (fsReadFile env filePath)"
  then have "isl (extractFileInfo env analyzer filePath)"
    by (rule extractFileInfo_fails)
  then show "\<exists>fileInfo analyzer'. analyzeFile env analyzer filePath = Inr (fileInfo, analyzer')
         \<and> getFileInfo analyzer' filePath = Some fileInfo
         \<and> path fileInfo = filePath
         \<and> fileImports fileInfo = [] \<and> fileExports fileInfo = []
         \<and> fileFunctions fileInfo = [] \<and> fileClasses fileInfo = []
         \<and> fileInterfaces fileInfo = [] \<and> fileTypes fileInfo = []
         \<and> dependencies fileInfo = []
         \<and> fileSize fileInfo = 0 \<and> language fileInfo = other"
    by (auto simp: analyzeFile_eq getFileInfo_def map_of_cacheSet minimalFileInfo_def isl_def)
next
  assume g: "fastGlob env rootDir = Inr files"
  define analyzer0 where "analyzer0 = analyzer\<lparr>projectRoot := rootDir\<rparr>"
  from analyzeAll_cache [of env analyzer0 "sort_key (settleTime env) files"]
  obtain analyzer' where
    a: "analyzeAll env analyzer0 (sort_key (settleTime env) files) = Inr analyzer'"
    and c: "\<And>p. map_of (cache analyzer') p =
           (if p \<in> set files
            then Some (case extractFileInfo env analyzer0 p of
                         Inr fi \<Rightarrow> fi | Inl e \<Rightarrow> minimalFileInfo env analyzer0 p)
            else map_of (cache analyzer0) p)"
    unfolding set_sort by blast
  have i: "indexProject env analyzer rootDir = Inr analyzer'"
    using a g by (simp add: indexProject_def analyzer0_def)
  have "\<exists>fileInfo. getFileInfo analyzer' p = Some fileInfo
                 \<and> path fileInfo = p
                 \<and> (isl (fsStat env p) \<or> isl (fsReadFile env p) \<longrightarrow>
                      fileImports fileInfo = [] \<and> fileExports fileInfo = []
                      \<and> fileFunctions fileInfo = [] \<and> fileClasses fileInfo = []
                      \<and> fileInterfaces fileInfo = [] \<and> fileTypes fileInfo = []
                      \<and> dependencies fileInfo = []
                      \<and> fileSize fileInfo = 0 \<and> language fileInfo = other)"
    if "p \<in> set files" for p
  proof (cases "extractFileInfo env analyzer0 p")
    case (Inl e)
    with c [of p] that show ?thesis
      by (simp add: getFileInfo_def minimalFileInfo_def)
  next
    case (Inr fi)
    then have "\<not> (isl (fsStat env p) \<or> isl (fsReadFile env p))"
      using extractFileInfo_fails [of env p analyzer0] by auto
    moreover have "path fi = p"
      using Inr by (auto simp: extractFileInfo_def Let_def split: sum.splits)
    ultimately show ?thesis
      using c [of p] that Inr by (simp add: getFileInfo_def)
  qed
  with i show "\<exists>analyzer'. indexProject env analyzer rootDir = Inr analyzer'
           \<and> (\<forall>p \<in> set files. \<exists>fileInfo. getFileInfo analyzer' p = Some fileInfo
                 \<and> path fileInfo = p
                 \<and> (isl (fsStat env p) \<or> isl (fsReadFile env p) \<longrightarrow>
                      fileImports fileInfo = [] \<and> fileExports fileInfo = []
                      \<and> fileFunctions fileInfo = [] \<and> fileClasses fileInfo = []
                      \<and> fileInterfaces fileInfo = [] \<and> fileTypes fileInfo = []
                      \<and> dependencies fileInfo = []
                      \<and> fileSize fileInfo = 0 \<and> language fileInfo = other))"
    by blast
qed

theorem analyzeFile_failure_record_witness:
  "isl (fsStat exampleEnvironment ''/repo/gone.ts'')
   \<and> fastGlob exampleEnvironment ''/repo'' = Inr [''/repo/a.ts'', ''/repo/gone.ts'']
   \<and> map fst (cache (projr (indexProject exampleEnvironment emptyAnalyzer ''/repo'')))
       = [''/repo/gone.ts'', ''/repo/a.ts'']
   \<and> fileSize (the (getFileInfo
         (projr (indexProject exampleEnvironment emptyAnalyzer ''/repo'')) ''/repo/gone.ts'')) = 0
   \<and> language (the (getFileInfo
         (projr (indexProject exampleEnvironment emptyAnalyzer ''/repo'')) ''/repo/gone.ts''))
       = other
   \<and> (\<exists>analyzer'. indexProject exampleEnvironment emptyAnalyzer ''/repo'' = Inr analyzer')"
proof -
  have s: "fileSize (the (getFileInfo
         (projr (indexProject exampleEnvironment emptyAnalyzer ''/repo'')) ''/repo/gone.ts'')) = 0"
    by code_simp
  have l: "language (the (getFileInfo
         (projr (indexProject exampleEnvironment emptyAnalyzer ''/repo'')) ''/repo/gone.ts''))
       = other"
    by code_simp
  have h: "isl (fsStat exampleEnvironment ''/repo/gone.ts'')"
    by (simp add: exampleEnvironment_def)
  have g: "fastGlob exampleEnvironment ''/repo'' = Inr [''/repo/a.ts'', ''/repo/gone.ts'']"
    by (simp add: exampleEnvironment_def)
  have k: "map fst (cache (projr (indexProject exampleEnvironment emptyAnalyzer ''/repo'')))
       = [''/repo/gone.ts'', ''/repo/a.ts'']"
    by code_simp
  from analyzeFile_failure_record
    [where env = exampleEnvironment and analyzer = emptyAnalyzer and rootDir = "''/repo''"] g
  have "\<exists>analyzer'. indexProject exampleEnvironment emptyAnalyzer ''/repo'' = Inr analyzer'"
    by blast
  with h g k s l show ?thesis by simp
qed

text \<open>
  C7. \<open>analyzeFile\<close> always returns a record, the record it caches, and in that record
  the dependencies are the paths of the imports, element for element and in the same
  order (on the failure branch both lists are empty).
\<close>

theorem dependencies_from_imports:
  "(\<exists>fileInfo analyzer'. analyzeFile env analyzer filePath = Inr (fileInfo, analyzer'))
   \<and> (\<forall>fileInfo analyzer'. analyzeFile env analyzer filePath = Inr (fileInfo, analyzer') \<longrightarrow>
         dependencies fileInfo = map importPath (fileImports fileInfo)
         \<and> getFileInfo analyzer' filePath = Some fileInfo)"
proof -
  have "dependencies fi = map importPath (fileImports fi)"
    if "extractFileInfo env analyzer filePath = Inr fi" for fi
    using that by (auto simp: extractFileInfo_def Let_def split: sum.splits)
  moreover have "dependencies (minimalFileInfo env analyzer filePath)
      = map importPath (fileImports (minimalFileInfo env analyzer filePath))"
    by (simp add: minimalFileInfo_def)
  ultimately show ?thesis
    by (auto simp: analyzeFile_eq getFileInfo_def map_of_cacheSet split: sum.splits)
qed

theorem dependencies_from_imports_witness:
  "dependencies (fst (projr (analyzeFile exampleEnvironment emptyAnalyzer ''/repo/a.ts'')))
     = [''./b'']
   \<and> map importPath
       (fileImports (fst (projr (analyzeFile exampleEnvironment emptyAnalyzer ''/repo/a.ts''))))
     = [''./b'']
   \<and> (\<exists>fileInfo analyzer'.
        analyzeFile exampleEnvironment emptyAnalyzer ''/repo/a.ts'' = Inr (fileInfo, analyzer'))"
proof -
  have a: "dependencies (fst (projr (analyzeFile exampleEnvironment emptyAnalyzer ''/repo/a.ts'')))
     = [''./b'']"
    by code_simp
  have b: "map importPath
       (fileImports (fst (projr (analyzeFile exampleEnvironment emptyAnalyzer ''/repo/a.ts''))))
     = [''./b'']"
    by code_simp
  from dependencies_from_imports [of exampleEnvironment emptyAnalyzer "''/repo/a.ts''"]
  have "\<exists>fileInfo analyzer'.
        analyzeFile exampleEnvironment emptyAnalyzer ''/repo/a.ts'' = Inr (fileInfo, analyzer')"
    by blast
  with a b show ?thesis by simp
qed

subsection \<open>The context request\<close>

lemma errorResponse_fields:
  "totalFiles (metadata (errorResponse q e l t)) = 0"
  "totalLines (metadata (errorResponse q e l t)) = 0"
  "totalFunctions (metadata (errorResponse q e l t)) = 0"
  "totalClasses (metadata (errorResponse q e l t)) = 0"
  "estimatedTokens (metadata (errorResponse q e l t)) = 100"
  "tokenCount (errorResponse q e l t) = 100"
  "compressionLevel (errorResponse q e l t) = ''error''"
  by (simp_all add: errorResponse_def)

text \<open>
  C2, as the code has it. \<open>buildCompleteContext\<close> never raises: it returns a response
  for every environment, analyzer state and options record. When the project root is
  invalid, and when an exception leaves the \<open>try\<close> block, the response has the metadata
  fields \<open>totalFiles\<close>, \<open>totalLines\<close>, \<open>totalFunctions\<close> and \<open>totalClasses\<close> at 0,
  \<open>estimatedTokens\<close> and the field \<open>tokenCount\<close> of the response at the constant 100, and
  \<open>compressionLevel\<close> equal to \<open>error\<close>.
\<close>

theorem buildCompleteContext_error_response:
  "(\<exists>response. buildCompleteContext env analyzer options = Inr response)
   \<and> (\<forall>e. tryBuildContext env analyzer options = Inl e \<longrightarrow>
         (\<exists>response. buildCompleteContext env analyzer options = Inr response
            \<and> totalFiles (metadata response) = 0 \<and> totalLines (metadata response) = 0
            \<and> totalFunctions (metadata response) = 0 \<and> totalClasses (metadata response) = 0
            \<and> estimatedTokens (metadata response) = 100
            \<and> tokenCount response = 100
            \<and> compressionLevel response = ''error''))
   \<and> (\<forall>validation. validateProjectRoot env (optProjectRoot options) = Inr validation
          \<and> \<not> valid validation \<longrightarrow>
         (\<exists>response. buildCompleteContext env analyzer options = Inr response
            \<and> totalFiles (metadata response) = 0 \<and> totalLines (metadata response) = 0
            \<and> totalFunctions (metadata response) = 0 \<and> totalClasses (metadata response) = 0
            \<and> estimatedTokens (metadata response) = 100
            \<and> tokenCount response = 100
            \<and> compressionLevel response = ''error''))"
proof (intro conjI allI impI)
  show "\<exists>response. buildCompleteContext env analyzer options = Inr response"
    by (simp add: buildCompleteContext_def Let_def split: sum.splits)
next
  fix e assume "tryBuildContext env analyzer options = Inl e"
  then show "\<exists>response. buildCompleteContext env analyzer options = Inr response
            \<and> totalFiles (metadata response) = 0 \<and> totalLines (metadata response) = 0
            \<and> totalFunctions (metadata response) = 0 \<and> totalClasses (metadata response) = 0
            \<and> estimatedTokens (metadata response) = 100
            \<and> tokenCount response = 100
            \<and> compressionLevel response = ''error''"
    by (simp add: buildCompleteContext_def Let_def errorResponse_fields)
next
  fix validation
  assume "validateProjectRoot env (optProjectRoot options) = Inr validation
          \<and> \<not> valid validation"
  then show "\<exists>response. buildCompleteContext env analyzer options = Inr response
            \<and> totalFiles (metadata response) = 0 \<and> totalLines (metadata response) = 0
            \<and> totalFunctions (metadata response) = 0 \<and> totalClasses (metadata response) = 0
            \<and> estimatedTokens (metadata response) = 100
            \<and> tokenCount response = 100
            \<and> compressionLevel response = ''error''"
    by (simp add: buildCompleteContext_def tryBuildContext_def Let_def errorResponse_fields)
qed

theorem buildCompleteContext_error_response_witness:
  "tryBuildContext exampleCollaborators emptyAnalyzer (exampleOptions ''a is on'' ''/repo'')
     = Inl (TypeError ''Reduce of empty array with no initial value'')
   \<and> (\<exists>response.
        buildCompleteContext exampleCollaborators emptyAnalyzer
          (exampleOptions ''a is on'' ''/repo'') = Inr response
        \<and> totalFiles (metadata response) = 0 \<and> totalLines (metadata response) = 0
        \<and> totalFunctions (metadata response) = 0 \<and> totalClasses (metadata response) = 0
        \<and> estimatedTokens (metadata response) = 100
        \<and> tokenCount response = 100
        \<and> compressionLevel response = ''error'')"
proof -
  have h: "tryBuildContext exampleCollaborators emptyAnalyzer
       (exampleOptions ''a is on'' ''/repo'')
     = Inl (TypeError ''Reduce of empty array with no initial value'')"
    by code_simp
  from buildCompleteContext_error_response
    [of exampleCollaborators emptyAnalyzer "exampleOptions ''a is on'' ''/repo''"] h
  have "\<exists>response.
        buildCompleteContext exampleCollaborators emptyAnalyzer
          (exampleOptions ''a is on'' ''/repo'') = Inr response
        \<and> totalFiles (metadata response) = 0 \<and> totalLines (metadata response) = 0
        \<and> totalFunctions (metadata response) = 0 \<and> totalClasses (metadata response) = 0
        \<and> estimatedTokens (metadata response) = 100
        \<and> tokenCount response = 100
        \<and> compressionLevel response = ''error''"
    by blast
  with h show ?thesis by (rule conjI)
qed

text \<open>
  C2 as stated fails: for an invalid project root, and for a request whose \<open>try\<close> block
  throws (no file is selected, so \<open>reduce\<close> meets an empty array), the response has
  \<open>compressionLevel\<close> \<open>error\<close> and \<open>estimatedTokens\<close> 100, not 0.
\<close>

theorem error_metadata_counterexample:
  "valid (projr (validateProjectRoot exampleCollaborators ''/nowhere'')) = False
   \<and> compressionLevel (projr (buildCompleteContext exampleCollaborators emptyAnalyzer
        (exampleOptions ''import'' ''/nowhere''))) = ''error''
   \<and> estimatedTokens (metadata (projr (buildCompleteContext exampleCollaborators emptyAnalyzer
        (exampleOptions ''import'' ''/nowhere'')))) = 100
   \<and> isl (tryBuildContext exampleCollaborators emptyAnalyzer
        (exampleOptions ''a is on'' ''/repo''))
   \<and> compressionLevel (projr (buildCompleteContext exampleCollaborators emptyAnalyzer
        (exampleOptions ''a is on'' ''/repo''))) = ''error''
   \<and> estimatedTokens (metadata (projr (buildCompleteContext exampleCollaborators emptyAnalyzer
        (exampleOptions ''a is on'' ''/repo'')))) = 100"
  by code_simp

subsection \<open>Rounding to a double\<close>

lemma bitlen_rat_bounds:
  assumes "0 < a"
  shows "(2::rat) powi (bitlen a - 1) \<le> of_int a" and "of_int a < (2::rat) powi (bitlen a)"
proof -
  from bitlen_bounds [OF assms]
  have l: "2 ^ nat (bitlen a - 1) \<le> a" and u: "a < 2 ^ nat (bitlen a)"
    by simp_all
  have p: "1 \<le> bitlen a"
    using assms by (simp add: bitlen_alt_def)
  have "(2::rat) powi (bitlen a - 1) = 2 ^ nat (bitlen a - 1)"
    using p by (simp add: power_int_def)
  also have "\<dots> = of_int (2 ^ nat (bitlen a - 1))"
    by simp
  also have "\<dots> \<le> of_int a"
    using l by (simp only: of_int_le_iff)
  finally show "(2::rat) powi (bitlen a - 1) \<le> of_int a" .
  have "(of_int a :: rat) < of_int (2 ^ nat (bitlen a))"
    using u by (simp only: of_int_less_iff)
  also have "\<dots> = 2 ^ nat (bitlen a)"
    by simp
  also have "\<dots> = (2::rat) powi (bitlen a)"
    using p by (simp add: power_int_def)
  finally show "of_int a < (2::rat) powi (bitlen a)" .
qed

lemma floorLog2_bounds:
  assumes "0 < x"
  shows "2 powi (floorLog2 x) \<le> x" and "x < 2 powi (floorLog2 x + 1)"
proof -
  obtain a b where q: "quotient_of x = (a, b)"
    by (cases "quotient_of x")
  then have b: "0 < b" and x: "x = of_int a / of_int b"
    by (simp_all add: quotient_of_denom_pos quotient_of_div)
  have a: "0 < a"
    using assms b unfolding x by (simp add: zero_less_divide_iff)
  define d where "d = bitlen a - bitlen b"
  note A = bitlen_rat_bounds [OF a] and B = bitlen_rat_bounds [OF b]
  have e: "floorLog2 x = (if 2 powi d \<le> x then d else d - 1)"
    by (simp add: floorLog2_def q d_def Let_def)
  have lower: "(2::rat) powi (d - 1) \<le> x"
  proof -
    have "(2::rat) powi (d - 1) = 2 powi (bitlen a - 1) / 2 powi (bitlen b)"
      by (simp add: d_def algebra_simps flip: power_int_diff)
    also have "\<dots> \<le> of_int a / of_int b"
      using A(1) B(2) a b by (intro frac_le) simp_all
    finally show ?thesis by (simp add: x)
  qed
  have upper: "x < (2::rat) powi (d + 1)"
  proof -
    have "x = of_int a / of_int b" by (rule x)
    also have "\<dots> < 2 powi (bitlen a) / 2 powi (bitlen b - 1)"
      using A(2) B(1) a by (intro frac_less) simp_all
    also have "\<dots> = (2::rat) powi (d + 1)"
      by (simp add: d_def algebra_simps flip: power_int_diff)
    finally show ?thesis .
  qed
  show "2 powi (floorLog2 x) \<le> x"
    using lower by (simp add: e)
  show "x < 2 powi (floorLog2 x + 1)"
    using upper by (auto simp: e not_le)
qed

lemma floorLog2_mono:
  assumes "0 < x" and "x \<le> y"
  shows "floorLog2 x \<le> floorLog2 y"
proof -
  have "(2::rat) powi (floorLog2 x) \<le> x"
    using assms(1) by (rule floorLog2_bounds)
  also have "x \<le> y" by fact
  also have "y < 2 powi (floorLog2 y + 1)"
    using assms by (intro floorLog2_bounds) simp
  finally have "(2::rat) powi (floorLog2 x) < 2 powi (floorLog2 y + 1)" .
  then have "floorLog2 x < floorLog2 y + 1"
    by (metis less_le_not_le linorder_not_le one_le_numeral power_int_increasing)
  then show ?thesis by simp
qed

lemma roundHalfEven_of_int: "roundHalfEven (of_int n) = n"
  by (simp add: roundHalfEven_def)

lemma roundHalfEven_mono:
  assumes "q \<le> q'"
  shows "roundHalfEven q \<le> roundHalfEven q'"
proof -
  have f: "\<lfloor>q\<rfloor> \<le> \<lfloor>q'\<rfloor>"
    using assms by (rule floor_mono)
  show ?thesis
  proof (cases "\<lfloor>q\<rfloor> = \<lfloor>q'\<rfloor>")
    case True
    with assms show ?thesis
      by (auto simp: roundHalfEven_def Let_def)
  next
    case False
    with f have "\<lfloor>q\<rfloor> + 1 \<le> \<lfloor>q'\<rfloor>" by simp
    moreover have "roundHalfEven q \<le> \<lfloor>q\<rfloor> + 1"
      by (simp add: roundHalfEven_def Let_def)
    moreover have "\<lfloor>q'\<rfloor> \<le> roundHalfEven q'"
      by (simp add: roundHalfEven_def Let_def)
    ultimately show ?thesis by linarith
  qed
qed

lemma scale_two:
  "(of_int (2 ^ 52) :: rat) * 2 powi (e - 52) = 2 powi e"
  "(of_int (2 ^ 53) :: rat) * 2 powi (e - 52) = 2 powi (e + 1)"
proof -
  have a: "(of_int (2 ^ 52) :: rat) = 2 powi 52" and b: "(of_int (2 ^ 53) :: rat) = 2 powi 53"
    by simp_all
  show "(of_int (2 ^ 52) :: rat) * 2 powi (e - 52) = 2 powi e"
    unfolding a by (subst power_int_add [symmetric]) simp_all
  show "(of_int (2 ^ 53) :: rat) * 2 powi (e - 52) = 2 powi (e + 1)"
    unfolding b by (subst power_int_add [symmetric]) (simp_all add: add.commute)
qed

lemma toDouble_pos:
  assumes "0 < x"
  shows "toDouble x = of_int (roundHalfEven (x * 2 powi (52 - floorLog2 x)))
                        * 2 powi (floorLog2 x - 52)"
  using assms by (simp add: toDouble_def Let_def)

lemma toDouble_lower:
  assumes "0 < x"
  shows "2 powi (floorLog2 x) \<le> toDouble x"
proof -
  define e where "e = floorLog2 x"
  define m where "m = roundHalfEven (x * 2 powi (52 - e))"
  have "(2::rat) powi e * 2 powi (52 - e) \<le> x * 2 powi (52 - e)"
    using floorLog2_bounds(1) [OF assms] by (intro mult_right_mono) (simp_all add: e_def)
  then have "of_int (2 ^ 52) \<le> x * 2 powi (52 - e)"
    by (simp flip: power_int_add)
  then have "roundHalfEven (of_int (2 ^ 52)) \<le> m"
    unfolding m_def by (rule roundHalfEven_mono)
  then have "(2 ^ 52 :: int) \<le> m"
    by (simp only: roundHalfEven_of_int)
  then have le: "(of_int (2 ^ 52) :: rat) \<le> of_int m"
    by (simp only: of_int_le_iff)
  have "(2::rat) powi e = of_int (2 ^ 52) * 2 powi (e - 52)"
    by (rule scale_two(1) [symmetric])
  also have "\<dots> \<le> of_int m * 2 powi (e - 52)"
    using le by (rule mult_right_mono) simp
  also have "\<dots> = toDouble x"
    by (simp add: toDouble_pos [OF assms] e_def m_def)
  finally show ?thesis
    by (simp only: e_def)
qed

lemma toDouble_upper:
  assumes "0 < x"
  shows "toDouble x \<le> 2 powi (floorLog2 x + 1)"
proof -
  define e where "e = floorLog2 x"
  define m where "m = roundHalfEven (x * 2 powi (52 - e))"
  have "x * 2 powi (52 - e) \<le> (2::rat) powi (e + 1) * 2 powi (52 - e)"
    using floorLog2_bounds(2) [OF assms] by (intro mult_right_mono) (simp_all add: e_def)
  also have "\<dots> = of_int (2 ^ 53)"
    by (simp flip: power_int_add)
  finally have "m \<le> roundHalfEven (of_int (2 ^ 53))"
    unfolding m_def by (rule roundHalfEven_mono)
  then have "m \<le> (2 ^ 53 :: int)"
    by (simp only: roundHalfEven_of_int)
  then have le: "(of_int m :: rat) \<le> of_int (2 ^ 53)"
    by (simp only: of_int_le_iff)
  have "toDouble x = of_int m * 2 powi (e - 52)"
    by (simp add: toDouble_pos [OF assms] e_def m_def)
  also have "\<dots> \<le> of_int (2 ^ 53) * 2 powi (e - 52)"
    using le by (rule mult_right_mono) simp
  also have "\<dots> = 2 powi (e + 1)"
    by (rule scale_two(2))
  finally show ?thesis
    by (simp only: e_def)
qed

lemma toDouble_nonneg: "0 \<le> x \<Longrightarrow> 0 \<le> toDouble x"
proof (cases "x = 0")
  case True
  then show ?thesis by (simp add: toDouble_def)
next
  case False
  assume "0 \<le> x"
  with False have "0 < x" by simp
  from toDouble_lower [OF this] show ?thesis
    by (meson dual_order.trans less_eq_rat_def zero_less_numeral zero_less_power_int)
qed

lemma toDouble_mono:
  assumes "0 \<le> x" and "x \<le> y"
  shows "toDouble x \<le> toDouble y"
proof (cases "x = 0")
  case True
  with assms toDouble_nonneg [of y] show ?thesis
    by (simp add: toDouble_def)
next
  case False
  with assms have x: "0 < x" and y: "0 < y" by simp_all
  have le: "floorLog2 x \<le> floorLog2 y"
    using x assms(2) by (rule floorLog2_mono)
  show ?thesis
  proof (cases "floorLog2 x = floorLog2 y")
    case True
    have "x * 2 powi (52 - floorLog2 y) \<le> y * 2 powi (52 - floorLog2 y)"
      using assms(2) by (intro mult_right_mono) simp_all
    then have "roundHalfEven (x * 2 powi (52 - floorLog2 y))
        \<le> roundHalfEven (y * 2 powi (52 - floorLog2 y))"
      by (rule roundHalfEven_mono)
    then have "(of_int (roundHalfEven (x * 2 powi (52 - floorLog2 y))) :: rat)
        \<le> of_int (roundHalfEven (y * 2 powi (52 - floorLog2 y)))"
      by (simp only: of_int_le_iff)
    then have "of_int (roundHalfEven (x * 2 powi (52 - floorLog2 y))) * 2 powi (floorLog2 y - 52)
        \<le> (of_int (roundHalfEven (y * 2 powi (52 - floorLog2 y))) :: rat)
            * 2 powi (floorLog2 y - 52)"
      by (intro mult_right_mono) simp_all
    then show ?thesis
      by (simp add: toDouble_pos [OF x] toDouble_pos [OF y] True)
  next
    case False
    with le have "floorLog2 x + 1 \<le> floorLog2 y" by simp
    then have "(2::rat) powi (floorLog2 x + 1) \<le> 2 powi (floorLog2 y)"
      by (intro power_int_increasing) simp_all
    with toDouble_upper [OF x] toDouble_lower [OF y] show ?thesis
      by linarith
  qed
qed

lemma numAdd_nonneg: "0 \<le> a \<Longrightarrow> 0 \<le> b \<Longrightarrow> 0 \<le> numAdd a b"
  by (simp add: numAdd_def toDouble_nonneg)

lemma numMul_nonneg: "0 \<le> a \<Longrightarrow> 0 \<le> b \<Longrightarrow> 0 \<le> numMul a b"
  by (simp add: numMul_def toDouble_nonneg)

lemma numDiv_nonneg: "0 \<le> a \<Longrightarrow> 0 \<le> b \<Longrightarrow> 0 \<le> numDiv a b"
  by (simp add: numDiv_def toDouble_nonneg)

lemma numAdd_mono:
  "0 \<le> a \<Longrightarrow> 0 \<le> b \<Longrightarrow> a \<le> a' \<Longrightarrow> b \<le> b' \<Longrightarrow> numAdd a b \<le> numAdd a' b'"
  unfolding numAdd_def by (rule toDouble_mono) simp_all

lemma toDouble_values:
  "toDouble 0 = 0" "toDouble 1 = 1" "toDouble 100 = 100"
  "toDouble (toDouble (3 / 10)) = toDouble (3 / 10)"
  "toDouble (toDouble (25 / 100)) = toDouble (25 / 100)"
  "toDouble (toDouble (2 / 10)) = toDouble (2 / 10)"
  "toDouble (toDouble (15 / 100)) = toDouble (15 / 100)"
  "toDouble (toDouble (1 / 10)) = toDouble (1 / 10)"
  by code_simp+

lemma numMul_le_weight:
  assumes "0 \<le> s" and "s \<le> 1" and "0 \<le> w" and "toDouble w = w"
  shows "numMul s w \<le> w"
proof -
  have "s * w \<le> 1 * w"
    using assms(2, 3) by (rule mult_right_mono)
  then have "toDouble (s * w) \<le> toDouble w"
    using assms(1, 3) by (intro toDouble_mono) simp_all
  then show ?thesis
    by (simp add: numMul_def assms(4))
qed

subsection \<open>Completeness scorer\<close>

lemma uniqueFrom_distinct:
  "distinct (uniqueFrom seen xs) \<and> set (uniqueFrom seen xs) \<inter> set seen = {}"
proof (induction xs arbitrary: seen)
  case Nil
  then show ?case by simp
next
  case (Cons x xs)
  from Cons [of seen] Cons [of "x # seen"] show ?case by auto
qed

lemma uniqueFrom_id:
  "distinct xs \<Longrightarrow> set xs \<inter> set seen = {} \<Longrightarrow> uniqueFrom seen xs = xs"
  by (induction xs arbitrary: seen) auto

lemma unique_distinct: "distinct (unique xs)"
  using uniqueFrom_distinct [of "[]" xs] by (simp add: unique_def)

lemma unique_id: "distinct xs \<Longrightarrow> unique xs = xs"
  by (simp add: unique_def uniqueFrom_id)

lemma detail_fields:
  "score (pushMissing s r) = score r" "score (pushSuggestion s r) = score r"
  "score (pushWarning s r) = score r" "score (pushStrength s r) = score r"
  "score (setScore k r) = k" "score (addScore k r) = numAdd (score r) k"
  "score (capScore r) = min 1 (score r)" "score (emptyDetail w) = 0"
  "weight (pushMissing s r) = weight r" "weight (pushSuggestion s r) = weight r"
  "weight (pushWarning s r) = weight r" "weight (pushStrength s r) = weight r"
  "weight (setScore k r) = weight r" "weight (addScore k r) = weight r"
  "weight (capScore r) = weight r" "weight (emptyDetail w) = w"
  "missingElements (pushMissing s r) = missingElements r @ [s]"
  "missingElements (pushSuggestion s r) = missingElements r"
  "missingElements (pushWarning s r) = missingElements r"
  "missingElements (pushStrength s r) = missingElements r"
  "missingElements (setScore k r) = missingElements r"
  "missingElements (addScore k r) = missingElements r"
  "missingElements (capScore r) = missingElements r"
  "missingElements (emptyDetail w) = []"
  by (simp_all add: pushMissing_def pushSuggestion_def pushWarning_def pushStrength_def
        setScore_def addScore_def capScore_def emptyDetail_def)

lemmas nonneg_rules = numAdd_nonneg numMul_nonneg numDiv_nonneg toDouble_nonneg

lemma code_score:
  "0 \<le> score (validateCodeCompleteness c q) \<and> score (validateCodeCompleteness c q) \<le> 1"
  by (simp add: validateCodeCompleteness_def Let_def detail_fields nonneg_rules)

lemma code_weight: "weight (validateCodeCompleteness c q) = toDouble (3 / 10)"
  by (simp add: validateCodeCompleteness_def Let_def detail_fields)

lemma dependency_score:
  "0 \<le> score (validateDependencyCompleteness c q) \<and> score (validateDependencyCompleteness c q) \<le> 1"
  by (simp add: validateDependencyCompleteness_def Let_def detail_fields nonneg_rules)

lemma dependency_weight: "weight (validateDependencyCompleteness c q) = toDouble (25 / 100)"
  by (simp add: validateDependencyCompleteness_def Let_def detail_fields)

lemma structural_score:
  "0 \<le> score (validateStructuralCompleteness c q) \<and> score (validateStructuralCompleteness c q) \<le> 1"
  by (simp add: validateStructuralCompleteness_def Let_def detail_fields nonneg_rules)

lemma structural_weight: "weight (validateStructuralCompleteness c q) = toDouble (2 / 10)"
  by (simp add: validateStructuralCompleteness_def Let_def detail_fields)

lemma usage_score:
  "0 \<le> score (validateUsageExamples c q) \<and> score (validateUsageExamples c q) \<le> 1"
  by (simp add: validateUsageExamples_def Let_def detail_fields nonneg_rules)

lemma usage_weight: "weight (validateUsageExamples c q) = toDouble (1 / 10)"
  by (simp add: validateUsageExamples_def Let_def detail_fields)

lemma coherenceRatio_nonneg: "0 \<le> coherenceRatio c q"
  by (simp add: coherenceRatio_def Let_def numDiv_nonneg)

lemma coherence_score:
  "0 \<le> score (validateContextCoherence c q) \<and> score (validateContextCoherence c q) \<le> 1"
  using coherenceRatio_nonneg [of c q]
  by (simp add: validateContextCoherence_def Let_def detail_fields nonneg_rules)

lemma coherence_weight: "weight (validateContextCoherence c q) = toDouble (15 / 100)"
  by (simp add: validateContextCoherence_def Let_def detail_fields)

lemma code_missing:
  "missingElements (validateCodeCompleteness c q) =
     (if countCodeBlocks c = 0 then [''No code implementations found''] else []) @
     (if \<not> (strIncludes c ''import'' \<or> strIncludes c ''from'')
      then [''Missing import statements''] else [])"
  by (simp add: validateCodeCompleteness_def Let_def detail_fields)

lemma dependency_missing:
  "missingElements (validateDependencyCompleteness c q) =
     (if \<not> (strIncludes c ''Dependencies'' \<or> strIncludes c ''imports'')
      then [''Missing dependency information''] else [])"
  by (simp add: validateDependencyCompleteness_def Let_def detail_fields)

lemma structural_missing:
  "missingElements (validateStructuralCompleteness c q) =
     (if \<not> (strIncludes c ''Summary'' \<or> strIncludes c ''Overview'')
      then [''Missing project summary''] else [])"
  by (simp add: validateStructuralCompleteness_def Let_def detail_fields)

lemma coherence_missing: "missingElements (validateContextCoherence c q) = []"
  by (simp add: validateContextCoherence_def Let_def detail_fields)

lemma usage_missing:
  "missingElements (validateUsageExamples c q) =
     (if qaRequiresTests q \<and> \<not> (strIncludes c ''test'' \<or> strIncludes c ''spec'')
      then [''Missing test cases''] else []) @
     (if qaRequiresDocumentation q \<and> \<not> (strIncludes c ''README'' \<or> strIncludes c ''doc'')
      then [''Missing documentation''] else [])"
  by (simp add: validateUsageExamples_def Let_def detail_fields)

lemma optional_distinct:
  assumes "distinct [a, b, c, d, e, f]"
  shows "distinct ((if p1 then [a] else []) @ (if p2 then [b] else []) @
                   (if p3 then [c] else []) @ (if p4 then [d] else []) @ [] @
                   (if p5 then [e] else []) @ (if p6 then [f] else []))"
  using assms by (cases p1; cases p2; cases p3; cases p4; cases p5; cases p6) simp_all

lemma missing_names_distinct:
  "distinct [''No code implementations found'', ''Missing import statements'',
             ''Missing dependency information'', ''Missing project summary'',
             ''Missing test cases'', ''Missing documentation'']"
  by simp

lemma missing_distinct:
  "distinct (missingElements (validateCodeCompleteness c q) @
             missingElements (validateDependencyCompleteness c q) @
             missingElements (validateStructuralCompleteness c q) @
             missingElements (validateContextCoherence c q) @
             missingElements (validateUsageExamples c q))"
  unfolding code_missing dependency_missing structural_missing coherence_missing
    usage_missing append_assoc
  by (rule optional_distinct [OF missing_names_distinct])



lemma total_weight_positive:
  "0 < numAdd (numAdd (numAdd (numAdd (numAdd 0 (toDouble (3 / 10))) (toDouble (25 / 100)))
                 (toDouble (2 / 10))) (toDouble (15 / 100))) (toDouble (1 / 10))"
  by code_simp

lemma threshold_values:
  "8 / 10 \<le> toDouble (8 / 10)" "toDouble (79 / 100) < 8 / 10"
  "toDouble (79 / 100) < toDouble (8 / 10)"
  by code_simp+

lemma rounded_score:
  assumes "0 \<le> t" and "t \<le> w" and "0 < w"
  defines "n \<equiv> mathRound (numMul (numDiv t w) 100)"
  shows "0 \<le> numDiv (of_int n) 100" and "numDiv (of_int n) 100 \<le> 1"
    and "toDouble (8 / 10) \<le> numDiv (of_int n) 100 \<longleftrightarrow> 8 / 10 \<le> numDiv (of_int n) 100"
proof -
  have "0 \<le> t / w" and "t / w \<le> 1"
    using assms(1-3) by simp_all
  then have r: "0 \<le> numDiv t w" "numDiv t w \<le> 1"
    using toDouble_mono [of "t / w" 1] toDouble_nonneg [of "t / w"]
    by (simp_all add: numDiv_def toDouble_values)
  then have "0 \<le> numDiv t w * 100" and "numDiv t w * 100 \<le> 100"
    by simp_all
  then have p: "0 \<le> numMul (numDiv t w) 100" "numMul (numDiv t w) 100 \<le> 100"
    using toDouble_mono [of "numDiv t w * 100" 100] toDouble_nonneg [of "numDiv t w * 100"]
    by (simp_all add: numMul_def toDouble_values)
  have n0: "0 \<le> n"
    using p(1) by (simp add: n_def mathRound_def)
  have "numMul (numDiv t w) 100 + 1 / 2 < 101"
    using p(2) by simp
  then have "n < 101"
    unfolding n_def mathRound_def by (simp add: floor_less_iff)
  then have n100: "n \<le> 100" by simp
  have q0: "(0::rat) \<le> of_int n / 100"
    using n0 by simp
  have "(of_int n :: rat) \<le> of_int 100"
    using n100 by (simp only: of_int_le_iff)
  then have q1: "(of_int n :: rat) / 100 \<le> 1"
    by simp
  show "0 \<le> numDiv (of_int n) 100"
    using q0 by (simp add: numDiv_def toDouble_nonneg)
  show "numDiv (of_int n) 100 \<le> 1"
    using toDouble_mono [OF q0 q1] by (simp add: numDiv_def toDouble_values)
  show "toDouble (8 / 10) \<le> numDiv (of_int n) 100 \<longleftrightarrow> 8 / 10 \<le> numDiv (of_int n) 100"
  proof (cases "80 \<le> n")
    case True
    then have "(of_int 80 :: rat) \<le> of_int n"
      by (simp only: of_int_le_iff)
    then have "(8 / 10 :: rat) \<le> of_int n / 100"
      by simp
    then have "toDouble (8 / 10) \<le> toDouble (of_int n / 100)"
      by (intro toDouble_mono) simp_all
    with threshold_values(1) show ?thesis
      by (simp add: numDiv_def)
  next
    case False
    then have "n \<le> 79" by simp
    then have "(of_int n :: rat) \<le> of_int 79"
      by (simp only: of_int_le_iff)
    then have "(of_int n :: rat) / 100 \<le> 79 / 100"
      by simp
    with q0 have "toDouble (of_int n / 100) \<le> toDouble (79 / 100)"
      by (intro toDouble_mono)
    with threshold_values(2, 3) show ?thesis
      by (simp add: numDiv_def)
  qed
qed

lemma completenessScore_eq:
  "completenessScore (validateCompleteness doc query) =
     numDiv (of_int (mathRound (numMul (numDiv
        (numAdd (numAdd (numAdd (numAdd (numAdd 0
           (numMul (score (validateCodeCompleteness doc (analyzeQuery query)))
              (toDouble (3 / 10))))
           (numMul (score (validateDependencyCompleteness doc (analyzeQuery query)))
              (toDouble (25 / 100))))
           (numMul (score (validateStructuralCompleteness doc (analyzeQuery query)))
              (toDouble (2 / 10))))
           (numMul (score (validateContextCoherence doc (analyzeQuery query)))
              (toDouble (15 / 100))))
           (numMul (score (validateUsageExamples doc (analyzeQuery query)))
              (toDouble (1 / 10))))
        (numAdd (numAdd (numAdd (numAdd (numAdd 0 (toDouble (3 / 10))) (toDouble (25 / 100)))
           (toDouble (2 / 10))) (toDouble (15 / 100))) (toDouble (1 / 10))))
        100))) 100"
  unfolding validateCompleteness_def Let_def foldl.simps
    code_weight dependency_weight structural_weight coherence_weight usage_weight
  using total_weight_positive by simp

lemma missingElements_eq:
  "missingElements (validateCompleteness doc query) =
     unique (missingElements (validateCodeCompleteness doc (analyzeQuery query)) @
             missingElements (validateDependencyCompleteness doc (analyzeQuery query)) @
             missingElements (validateStructuralCompleteness doc (analyzeQuery query)) @
             missingElements (validateContextCoherence doc (analyzeQuery query)) @
             missingElements (validateUsageExamples doc (analyzeQuery query)))"
  unfolding validateCompleteness_def Let_def by simp

text \<open>
  C4. For every document and every query, the completeness score lies in \<open>[0, 1]\<close>, the
  four lists returned hold no duplicates, and \<open>isComplete\<close> is true exactly when the
  score is at least 0.8 and the returned \<open>missingElements\<close> has fewer than 3 entries.
  The score is the double the source computes; it is at least the double \<open>0.8\<close> exactly
  when it is at least the real number 0.8. (The source tests the length before it
  removes duplicates; the five validators never push the same missing element twice, so
  the two lengths agree.)
\<close>

theorem validateCompleteness_result:
  "0 \<le> completenessScore (validateCompleteness doc query)
   \<and> completenessScore (validateCompleteness doc query) \<le> 1
   \<and> distinct (missingElements (validateCompleteness doc query))
   \<and> distinct (suggestions (validateCompleteness doc query))
   \<and> distinct (warnings (validateCompleteness doc query))
   \<and> distinct (strengths (validateCompleteness doc query))
   \<and> (isComplete (validateCompleteness doc query) \<longleftrightarrow>
        completenessScore (validateCompleteness doc query) \<ge> toDouble (8 / 10)
        \<and> length (missingElements (validateCompleteness doc query)) < 3)
   \<and> (completenessScore (validateCompleteness doc query) \<ge> toDouble (8 / 10) \<longleftrightarrow>
        completenessScore (validateCompleteness doc query) \<ge> 8 / 10)"
proof -
  define q where "q = analyzeQuery query"
  define s1 where "s1 = score (validateCodeCompleteness doc q)"
  define s2 where "s2 = score (validateDependencyCompleteness doc q)"
  define s3 where "s3 = score (validateStructuralCompleteness doc q)"
  define s4 where "s4 = score (validateContextCoherence doc q)"
  define s5 where "s5 = score (validateUsageExamples doc q)"
  define w1 :: rat where "w1 = toDouble (3 / 10)"
  define w2 :: rat where "w2 = toDouble (25 / 100)"
  define w3 :: rat where "w3 = toDouble (2 / 10)"
  define w4 :: rat where "w4 = toDouble (15 / 100)"
  define w5 :: rat where "w5 = toDouble (1 / 10)"
  define t where "t = numAdd (numAdd (numAdd (numAdd (numAdd 0 (numMul s1 w1)) (numMul s2 w2))
                        (numMul s3 w3)) (numMul s4 w4)) (numMul s5 w5)"
  define w where "w = numAdd (numAdd (numAdd (numAdd (numAdd 0 w1) w2) w3) w4) w5"
  define missing where "missing =
             missingElements (validateCodeCompleteness doc q) @
             missingElements (validateDependencyCompleteness doc q) @
             missingElements (validateStructuralCompleteness doc q) @
             missingElements (validateContextCoherence doc q) @
             missingElements (validateUsageExamples doc q)"
  have b: "0 \<le> s1" "s1 \<le> 1" "0 \<le> s2" "s2 \<le> 1" "0 \<le> s3" "s3 \<le> 1"
          "0 \<le> s4" "s4 \<le> 1" "0 \<le> s5" "s5 \<le> 1"
    using code_score [of doc q] dependency_score [of doc q] structural_score [of doc q]
      coherence_score [of doc q] usage_score [of doc q]
    by (simp_all add: s1_def s2_def s3_def s4_def s5_def)
  have wn: "0 \<le> w1" "0 \<le> w2" "0 \<le> w3" "0 \<le> w4" "0 \<le> w5"
    by (simp_all add: w1_def w2_def w3_def w4_def w5_def toDouble_nonneg)
  have wf: "toDouble w1 = w1" "toDouble w2 = w2" "toDouble w3 = w3" "toDouble w4 = w4"
           "toDouble w5 = w5"
    unfolding w1_def w2_def w3_def w4_def w5_def by (rule toDouble_values)+
  note m = numMul_le_weight [OF b(1, 2) wn(1) wf(1)] numMul_le_weight [OF b(3, 4) wn(2) wf(2)]
    numMul_le_weight [OF b(5, 6) wn(3) wf(3)] numMul_le_weight [OF b(7, 8) wn(4) wf(4)]
    numMul_le_weight [OF b(9, 10) wn(5) wf(5)]
  have p: "0 \<le> numMul s1 w1" "0 \<le> numMul s2 w2" "0 \<le> numMul s3 w3" "0 \<le> numMul s4 w4"
          "0 \<le> numMul s5 w5"
    using b wn by (simp_all add: numMul_nonneg)
  have t0: "0 \<le> t"
    unfolding t_def using p by (intro numAdd_nonneg) simp_all
  have tw: "t \<le> w"
    unfolding t_def w_def using p m by (intro numAdd_mono numAdd_nonneg) simp_all
  have w0: "0 < w"
    unfolding w_def w1_def w2_def w3_def w4_def w5_def by (rule total_weight_positive)
  have totals: "foldl (\<lambda>total v. numAdd total (numMul (score v) (weight v))) 0
           [validateCodeCompleteness doc q, validateDependencyCompleteness doc q,
            validateStructuralCompleteness doc q, validateContextCoherence doc q,
            validateUsageExamples doc q] = t"
      "foldl (\<lambda>total v. numAdd total (weight v)) 0
           [validateCodeCompleteness doc q, validateDependencyCompleteness doc q,
            validateStructuralCompleteness doc q, validateContextCoherence doc q,
            validateUsageExamples doc q] = w"
    unfolding t_def w_def s1_def s2_def s3_def s4_def s5_def w1_def w2_def w3_def w4_def w5_def
      foldl.simps code_weight dependency_weight structural_weight coherence_weight usage_weight
    by (rule refl)+
  have cs: "completenessScore (validateCompleteness doc query)
              = numDiv (of_int (mathRound (numMul (numDiv t w) 100))) 100"
    unfolding validateCompleteness_def Let_def q_def [symmetric] totals
    using w0 by simp
  have me: "missingElements (validateCompleteness doc query) = unique missing"
    unfolding validateCompleteness_def Let_def q_def [symmetric] totals
    by (simp add: missing_def)
  have ic: "isComplete (validateCompleteness doc query) \<longleftrightarrow>
              completenessScore (validateCompleteness doc query) \<ge> toDouble (8 / 10)
              \<and> length missing < 3"
    unfolding validateCompleteness_def Let_def q_def [symmetric] totals
    using w0 by (simp add: missing_def)
  have "distinct missing"
    unfolding missing_def by (rule missing_distinct)
  then have um: "unique missing = missing"
    by (rule unique_id)
  have d: "distinct (missingElements (validateCompleteness doc query))"
          "distinct (suggestions (validateCompleteness doc query))"
          "distinct (warnings (validateCompleteness doc query))"
          "distinct (strengths (validateCompleteness doc query))"
    unfolding validateCompleteness_def Let_def by (simp_all add: unique_distinct)
  show ?thesis
    using rounded_score [OF t0 tw w0] d ic unfolding cs me um by blast
qed


theorem validateCompleteness_result_witness:
  "completenessScore (validateCompleteness exampleReport ''parser Project'') = toDouble (95 / 100)
   \<and> isComplete (validateCompleteness exampleReport ''parser Project'')
   \<and> length (missingElements (validateCompleteness exampleReport ''parser Project'')) = 0
   \<and> distinct (strengths (validateCompleteness exampleReport ''parser Project''))"
proof -
  have s: "score (validateCodeCompleteness exampleReport (analyzeQuery ''parser Project'')) = 1"
    "score (validateDependencyCompleteness exampleReport (analyzeQuery ''parser Project'')) = 1"
    "score (validateStructuralCompleteness exampleReport (analyzeQuery ''parser Project'')) = 1"
    "score (validateContextCoherence exampleReport (analyzeQuery ''parser Project'')) = 1"
    "score (validateUsageExamples exampleReport (analyzeQuery ''parser Project'')) = 1 / 2"
    by code_simp+
  have m: "missingElements (validateCodeCompleteness exampleReport
             (analyzeQuery ''parser Project'')) = []"
    "missingElements (validateDependencyCompleteness exampleReport
       (analyzeQuery ''parser Project'')) = []"
    "missingElements (validateStructuralCompleteness exampleReport
       (analyzeQuery ''parser Project'')) = []"
    "missingElements (validateContextCoherence exampleReport
       (analyzeQuery ''parser Project'')) = []"
    "missingElements (validateUsageExamples exampleReport
       (analyzeQuery ''parser Project'')) = []"
    by code_simp+
  have "completenessScore (validateCompleteness exampleReport ''parser Project'')
      = numDiv (of_int (mathRound (numMul (numDiv
          (numAdd (numAdd (numAdd (numAdd (numAdd 0
             (numMul 1 (toDouble (3 / 10))))
             (numMul 1 (toDouble (25 / 100))))
             (numMul 1 (toDouble (2 / 10))))
             (numMul 1 (toDouble (15 / 100))))
             (numMul (1 / 2) (toDouble (1 / 10))))
          (numAdd (numAdd (numAdd (numAdd (numAdd 0 (toDouble (3 / 10))) (toDouble (25 / 100)))
             (toDouble (2 / 10))) (toDouble (15 / 100))) (toDouble (1 / 10))))
          100))) 100"
    by (simp only: completenessScore_eq s)
  also have "\<dots> = toDouble (95 / 100)"
    by code_simp
  finally have a: "completenessScore (validateCompleteness exampleReport ''parser Project'')
                     = toDouble (95 / 100)" .
  have c: "missingElements (validateCompleteness exampleReport ''parser Project'') = []"
    by (simp only: missingElements_eq m append_Nil unique_def uniqueFrom.simps)
  have "toDouble (8 / 10) \<le> toDouble (95 / 100)"
    by (intro toDouble_mono) simp_all
  with validateCompleteness_result [of exampleReport "''parser Project''"] a c
  have "isComplete (validateCompleteness exampleReport ''parser Project'')"
    and "distinct (strengths (validateCompleteness exampleReport ''parser Project''))"
    by simp_all
  with a c show ?thesis by simp
qed

text \<open>
  The rounding of doubles shows in the score: the weighted sum of this document is
  0.165 in exact arithmetic and just below it in doubles, and the score is 0.16.
\<close>

lemma validateCompleteness_rounding_example:
  "completenessScore (validateCompleteness ''# a\<newline># b\<newline># c\<newline>alpha'' ''alpha gamma'') = toDouble (16 / 100)"
proof -
  have s: "score (validateCodeCompleteness ''# a\<newline># b\<newline># c\<newline>alpha'' (analyzeQuery ''alpha gamma'')) = toDouble (1 / 10)"
    "score (validateDependencyCompleteness ''# a\<newline># b\<newline># c\<newline>alpha'' (analyzeQuery ''alpha gamma'')) = 0"
    "score (validateStructuralCompleteness ''# a\<newline># b\<newline># c\<newline>alpha'' (analyzeQuery ''alpha gamma'')) = toDouble (3 / 10)"
    "score (validateContextCoherence ''# a\<newline># b\<newline># c\<newline>alpha'' (analyzeQuery ''alpha gamma'')) = 1 / 2"
    "score (validateUsageExamples ''# a\<newline># b\<newline># c\<newline>alpha'' (analyzeQuery ''alpha gamma'')) = 0"
    by code_simp+
  have "completenessScore (validateCompleteness ''# a\<newline># b\<newline># c\<newline>alpha'' ''alpha gamma'')
      = numDiv (of_int (mathRound (numMul (numDiv
          (numAdd (numAdd (numAdd (numAdd (numAdd 0
             (numMul (toDouble (1 / 10)) (toDouble (3 / 10))))
             (numMul 0 (toDouble (25 / 100))))
             (numMul (toDouble (3 / 10)) (toDouble (2 / 10))))
             (numMul (1 / 2) (toDouble (15 / 100))))
             (numMul 0 (toDouble (1 / 10))))
          (numAdd (numAdd (numAdd (numAdd (numAdd 0 (toDouble (3 / 10))) (toDouble (25 / 100)))
             (toDouble (2 / 10))) (toDouble (15 / 100))) (toDouble (1 / 10))))
          100))) 100"
    by (simp only: completenessScore_eq s)
  also have "\<dots> = toDouble (16 / 100)"
    by code_simp
  finally show ?thesis .
qed

end
